theory Spec2Isabelle
  imports Main
begin

section \<open>JavaScript values as the use-case API sees them\<close>

text \<open>
  \<^verbatim>\<open>src/api/usecases.ts\<close> receives values of type \<^verbatim>\<open>any\<close>: what a form hands
  over, what \<^verbatim>\<open>JSON.parse\<close> reads back from local storage, what the database client
  returns. The datatype below has one constructor per case the code distinguishes with
  \<^verbatim>\<open>=== null\<close>, \<^verbatim>\<open>=== undefined\<close>, \<^verbatim>\<open>Array.isArray\<close> and \<^verbatim>\<open>typeof\<close>.

  \<^item> Numbers are of an arbitrary type \<open>'n\<close>; how the engine prints and tests them is
    part of the \<open>platform\<close> record below, so every theorem holds for IEEE doubles and
    their printing as for any other choice.
  \<^item> An object that is not an array is used by the code through \<^verbatim>\<open>String(value)\<close>
    only. It is modelled by the outcome of that conversion: \<open>Some text\<close>, or \<open>None\<close> where the
    conversion throws (an object without a usable \<^verbatim>\<open>toString\<close>, such as
    \<^verbatim>\<open>Object.create(null)\<close>). A plain object is \<open>JObj (Some ''[object Object]'')\<close>.
  \<^item> A string is a \<open>char list\<close>; a character stands for a code unit below 256.
\<close>

datatype 'n jsval =
    JNull
  | JUndefined
  | JBool bool
  | JNum 'n
  | JStr string
  | JArr "'n jsval list"
  | JObj "string option"

text \<open>What the JavaScript engine supplies and the repository does not define.\<close>

record 'n platform =
  Number_toString :: "'n \<Rightarrow> string"
  Number_toBoolean :: "'n \<Rightarrow> bool"
  JSON_parse :: "string \<Rightarrow> 'n jsval option"

text \<open>
  Thrown values. \<open>Error\<close> is what the API itself throws with \<^verbatim>\<open>new Error(message)\<close>;
  \<open>TypeError\<close> and \<open>SyntaxError\<close> come from the engine; \<open>PostgrestError\<close> is the error
  object of the database client, thrown as it is by \<^verbatim>\<open>if (error) throw error\<close>.
\<close>

datatype js_error =
    Error string
  | TypeError string
  | SyntaxError string
  | PostgrestError string

fun message :: "js_error \<Rightarrow> string" where
  "message (Error m) = m"
| "message (TypeError m) = m"
| "message (SyntaxError m) = m"
| "message (PostgrestError m) = m"

definition bindE :: "'e + 'a \<Rightarrow> ('a \<Rightarrow> 'e + 'b) \<Rightarrow> 'e + 'b" where
  "bindE r f = (case r of Inl e \<Rightarrow> Inl e | Inr x \<Rightarrow> f x)"

subsection \<open>Conversions of the language\<close>

fun isNullish :: "'n jsval \<Rightarrow> bool" where
  "isNullish JNull = True"
| "isNullish JUndefined = True"
| "isNullish _ = False"

text \<open>
  \<^verbatim>\<open>String(value)\<close>. An array is joined with commas, \<^verbatim>\<open>null\<close> and
  \<^verbatim>\<open>undefined\<close> elements giving the empty text; the conversion of an array throws
  when that of one of its other elements does.
\<close>

fun ToString :: "('n, 'm) platform_scheme \<Rightarrow> 'n jsval \<Rightarrow> string option"
  and Array_join :: "('n, 'm) platform_scheme \<Rightarrow> 'n jsval list \<Rightarrow> string option" where
  "ToString P JNull = Some ''null''"
| "ToString P JUndefined = Some ''undefined''"
| "ToString P (JBool b) = Some (if b then ''true'' else ''false'')"
| "ToString P (JNum n) = Some (Number_toString P n)"
| "ToString P (JStr s) = Some s"
| "ToString P (JArr items) = Array_join P items"
| "ToString P (JObj t) = t"
| "Array_join P [] = Some []"
| "Array_join P (x # xs) =
     (case (if isNullish x then Some [] else ToString P x) of
        None \<Rightarrow> None
      | Some s \<Rightarrow>
          (if xs = [] then Some s
           else (case Array_join P xs of None \<Rightarrow> None | Some r \<Rightarrow> Some (s @ '','' @ r))))"

text \<open>\<^verbatim>\<open>String(value)\<close> as a statement: the text, or the \<open>TypeError\<close> thrown.\<close>

definition String_js :: "('n, 'm) platform_scheme \<Rightarrow> 'n jsval \<Rightarrow> js_error + string" where
  "String_js P v =
     (case ToString P v of
        None \<Rightarrow> Inl (TypeError ''Cannot convert object to primitive value'')
      | Some s \<Rightarrow> Inr s)"

text \<open>\<^verbatim>\<open>items.map((item) => String(item))\<close>: the first conversion that throws ends the map.\<close>

fun map_String :: "('n, 'm) platform_scheme \<Rightarrow> 'n jsval list \<Rightarrow> js_error + string list" where
  "map_String P [] = Inr []"
| "map_String P (item # items) =
     bindE (String_js P item) (\<lambda>s. bindE (map_String P items) (\<lambda>r. Inr (s # r)))"

text \<open>\<^verbatim>\<open>Boolean(value)\<close>, the test behind \<^verbatim>\<open>a || b\<close> and \<^verbatim>\<open>filter(Boolean)\<close>.\<close>

fun ToBoolean :: "('n, 'm) platform_scheme \<Rightarrow> 'n jsval \<Rightarrow> bool" where
  "ToBoolean P JNull = False"
| "ToBoolean P JUndefined = False"
| "ToBoolean P (JBool b) = b"
| "ToBoolean P (JNum n) = Number_toBoolean P n"
| "ToBoolean P (JStr s) = (s \<noteq> [])"
| "ToBoolean P (JArr items) = True"
| "ToBoolean P (JObj t) = True"

text \<open>
  \<^verbatim>\<open>String.prototype.trim\<close> removes white space and line terminators at both ends:
  TAB, LF, VT, FF, CR, SP and NBSP among the code units below 256.
\<close>

definition isWhiteSpace :: "char \<Rightarrow> bool" where
  "isWhiteSpace c = ((of_char c :: nat) \<in> {9, 10, 11, 12, 13, 32, 160})"

definition trim :: "string \<Rightarrow> string" where
  "trim s = rev (dropWhile isWhiteSpace (rev (dropWhile isWhiteSpace s)))"

definition startsWith :: "string \<Rightarrow> string \<Rightarrow> bool" where
  "startsWith s p = (take (length p) s = p)"

definition endsWith :: "string \<Rightarrow> string \<Rightarrow> bool" where
  "endsWith s p = (length p \<le> length s \<and> drop (length s - length p) s = p)"

section \<open>The normalization adapter: \<^verbatim>\<open>safeEnsureArray\<close>\<close>

text \<open>
  \<^verbatim>\<open>debugValue\<close> only logs, but the object it logs holds \<^verbatim>\<open>String(value)\<close>: the
  call throws where that conversion does, and has no other effect on the result.
\<close>

definition debugValue :: "('n, 'm) platform_scheme \<Rightarrow> string \<Rightarrow> 'n jsval \<Rightarrow> js_error + unit" where
  "debugValue P label v = bindE (String_js P v) (\<lambda>_. Inr ())"

text \<open>
  The test \<^verbatim>\<open>value.trim().startsWith("[") && value.trim().endsWith("]")\<close> of line 94.
\<close>

definition looksLikeJsonArray :: "string \<Rightarrow> bool" where
  "looksLikeJsonArray s = (startsWith (trim s) ''['' \<and> endsWith (trim s) '']'')"

text \<open>
  Lines 95 to 115, the inner \<^verbatim>\<open>try\<close>: \<^verbatim>\<open>JSON.parse(value)\<close> throws a
  \<open>SyntaxError\<close> where the platform's parser gives \<open>None\<close>; the inner \<^verbatim>\<open>catch\<close> takes
  that and whatever the \<^verbatim>\<open>map\<close> throws, and returns \<^verbatim>\<open>[value]\<close>.
\<close>

definition parseBracketed :: "('n, 'm) platform_scheme \<Rightarrow> string \<Rightarrow> js_error + string list" where
  "parseBracketed P s =
     (case (case JSON_parse P s of
              None \<Rightarrow> Inl (SyntaxError ''Unexpected token'')
            | Some parsed \<Rightarrow>
                (case parsed of
                   JArr items \<Rightarrow> map_String P items
                 | _ \<Rightarrow> bindE (String_js P (JStr s)) (\<lambda>t. Inr [t]))) of
        Inr result \<Rightarrow> Inr result
      | Inl e \<Rightarrow> Inr [s])"

text \<open>The branches of lines 74 to 137, in the order of the source.\<close>

fun safeEnsureArray_branches ::
  "('n, 'm) platform_scheme \<Rightarrow> 'n jsval \<Rightarrow> js_error + string list" where
  "safeEnsureArray_branches P JNull = Inr []"
| "safeEnsureArray_branches P JUndefined = Inr []"
| "safeEnsureArray_branches P (JArr items) = map_String P items"
| "safeEnsureArray_branches P (JStr s) =
     (if looksLikeJsonArray s then parseBracketed P s else Inr [s])"
| "safeEnsureArray_branches P (JObj t) = bindE (String_js P (JObj t)) (\<lambda>s. Inr [s])"
| "safeEnsureArray_branches P v = bindE (String_js P v) (\<lambda>s. Inr [s])"

text \<open>The body of the outer \<^verbatim>\<open>try\<close> (lines 70 to 137).\<close>

definition safeEnsureArray_try ::
  "('n, 'm) platform_scheme \<Rightarrow> 'n jsval \<Rightarrow> string \<Rightarrow> js_error + string list" where
  "safeEnsureArray_try P v fieldName =
     bindE (debugValue P (''safeEnsureArray input ('' @ fieldName @ '')'') v)
       (\<lambda>_. safeEnsureArray_branches P v)"

text \<open>
  \<^verbatim>\<open>safeEnsureArray(value, fieldName)\<close>: the outer \<^verbatim>\<open>catch\<close> (lines 138 to 142)
  logs and returns \<^verbatim>\<open>[]\<close>. The result is kept as a sum, \<open>Inl\<close> for an exception leaving
  the function, because the callers wrap some calls in \<^verbatim>\<open>try\<close> themselves.
\<close>

definition safeEnsureArray ::
  "('n, 'm) platform_scheme \<Rightarrow> 'n jsval \<Rightarrow> string \<Rightarrow> js_error + string list" where
  "safeEnsureArray P v fieldName =
     (case safeEnsureArray_try P v fieldName of
        Inr result \<Rightarrow> Inr result
      | Inl e \<Rightarrow> Inr [])"

definition ensureArray :: "('n, 'm) platform_scheme \<Rightarrow> 'n jsval \<Rightarrow> js_error + string list" where
  "ensureArray P v = safeEnsureArray P v ''unknown''"

section \<open>The data of the persistence gateway\<close>

text \<open>
  The form data of \<^verbatim>\<open>createUseCase\<close>. The two list fields are declared
  \<^verbatim>\<open>string[]\<close> but go straight into \<^verbatim>\<open>safeEnsureArray(value: any)\<close>, so they are
  values of any shape here. \<^verbatim>\<open>data.imageUrl || default\<close> treats an absent and an empty
  \<^verbatim>\<open>imageUrl\<close> alike; the empty string stands for both.
\<close>

record 'n UseCaseFormData =
  title :: string
  description :: string
  content :: string
  industries :: "'n jsval"
  categories :: "'n jsval"
  imageUrl :: string
  status :: string

text \<open>
  \<^verbatim>\<open>Partial<UseCaseFormData>\<close>, the input of \<^verbatim>\<open>updateUseCase\<close>: \<open>None\<close>, and
  \<open>JUndefined\<close> in a list field, is a field that is \<^verbatim>\<open>undefined\<close>.
\<close>

record 'n PartialUseCaseFormData =
  title :: "string option"
  description :: "string option"
  content :: "string option"
  industries :: "'n jsval"
  categories :: "'n jsval"
  imageUrl :: "string option"
  status :: "string option"

text \<open>
  A row of the remote table \<^verbatim>\<open>usecases\<close> as the client returns it. The list columns
  have been text, JSON and native arrays over time, hence values of any shape. A text column
  is a string; SQL \<^verbatim>\<open>NULL\<close> is the empty string here, which every test the code makes
  on these columns (\<^verbatim>\<open>||\<close>, \<^verbatim>\<open>? :\<close>, \<^verbatim>\<open>filter(Boolean)\<close>) treats like it;
  \<^verbatim>\<open>industry\<close> and \<^verbatim>\<open>category\<close> never reach an entity without such a test.
\<close>

record 'n UseCaseRow =
  id' :: string
  title :: string
  description :: string
  content :: string
  industry :: string
  category :: string
  industries :: "'n jsval"
  categories :: "'n jsval"
  image_url :: string
  status :: string
  created_at :: string
  updated_at :: string

text \<open>The object \<^verbatim>\<open>dbData\<close> of lines 441 to 454 and the object \<^verbatim>\<open>updateData\<close> of lines 611 to 680.\<close>

record DbData =
  title :: string
  description :: string
  content :: string
  industry :: string
  category :: string
  industries :: "string list"
  categories :: "string list"
  image_url :: string
  status :: string
  created_at :: string
  updated_at :: string

record UpdateData =
  updated_at :: string
  title :: "string option"
  description :: "string option"
  content :: "string option"
  industries :: "string list option"
  industry :: "string option"
  categories :: "string list option"
  category :: "string option"
  image_url :: "string option"
  status :: "string option"

text \<open>
  The interface \<^verbatim>\<open>UseCase\<close>, with the type of its two list fields left open: a list of
  strings in the entity a gateway operation returns (\<open>UseCase\<close>), a value of any shape in
  a record read back from local storage (\<open>StoredUseCase\<close>), which is why the code
  normalizes it. The other fields are strings, as the interface declares them, in both.
\<close>

record 'a UseCaseOf =
  id' :: string
  title :: string
  description :: string
  content :: string
  industry :: string
  category :: string
  industries :: 'a
  categories :: 'a
  imageUrl :: string
  status :: string
  createdAt :: string
  updatedAt :: string

type_synonym UseCase = "string list UseCaseOf"

type_synonym 'n StoredUseCase = "'n jsval UseCaseOf"

text \<open>
  Local storage holds the JSON text of the array of use cases under the key
  \<^verbatim>\<open>"usecases"\<close>; \<^verbatim>\<open>initializeLocalStorage\<close> writes \<^verbatim>\<open>[]\<close> there at module load.
  The state of the local backend is that array as \<^verbatim>\<open>JSON.parse\<close> reads it back:
  \<open>toStored\<close> is an entity after \<^verbatim>\<open>JSON.stringify\<close> and \<^verbatim>\<open>JSON.parse\<close>, its lists of
  strings being arrays of strings again.
\<close>

definition toStored :: "UseCase \<Rightarrow> 'n StoredUseCase" where
  "toStored u =
     \<lparr> id' = id' u, title = title u, description = description u, content = content u,
       industry = industry u, category = category u,
       industries = JArr (map JStr (industries u)),
       categories = JArr (map JStr (categories u)),
       imageUrl = imageUrl u, status = status u,
       createdAt = createdAt u, updatedAt = updatedAt u \<rparr>"

text \<open>
  The answer of the database client, \<^verbatim>\<open>{ data, error }\<close>; the error is kept by its
  message.
\<close>

record 'r PostgrestResponse =
  data :: "'r option"
  error :: "string option"

text \<open>
  What a call of the gateway finds around it: the platform, the clock, and the two names
  imported from \<^verbatim>\<open>../lib/supabase\<close>, which is not among the sources: the backend
  switch \<^verbatim>\<open>useLocalStorageFallback()\<close> and the client \<^verbatim>\<open>supabase\<close>, given by its
  answers to the five queries the code sends. Three of the queries end in
  \<^verbatim>\<open>.single()\<close> and are answered with one row or none; the answers are arbitrary.
\<close>

record 'n env = "'n platform" +
  useLocalStorageFallback :: bool
  Date_now :: 'n
  Date_toISOString :: string
  select_all :: "'n UseCaseRow list PostgrestResponse"
  select_eq_id_single :: "string \<Rightarrow> 'n UseCaseRow PostgrestResponse"
  insert_select_single :: "DbData \<Rightarrow> 'n UseCaseRow PostgrestResponse"
  update_eq_id_select_single :: "string \<Rightarrow> UpdateData \<Rightarrow> 'n UseCaseRow PostgrestResponse"
  delete_eq_id :: "string \<Rightarrow> string option"

subsection \<open>Small pieces of the language used by the gateway\<close>

text \<open>\<^verbatim>\<open>a || b\<close> on strings and on values, \<^verbatim>\<open>[s].filter(Boolean)\<close>, \<^verbatim>\<open>s ? [s] : []\<close>.\<close>

definition orElse :: "string \<Rightarrow> string \<Rightarrow> string" where
  "orElse a b = (if a \<noteq> [] then a else b)"

definition orElseValue :: "('n, 'm) platform_scheme \<Rightarrow> 'n jsval \<Rightarrow> 'n jsval \<Rightarrow> 'n jsval" where
  "orElseValue P a b = (if ToBoolean P a then a else b)"

definition filter_Boolean :: "string list \<Rightarrow> string list" where
  "filter_Boolean xs = filter (\<lambda>s. s \<noteq> []) xs"

definition singletonIf :: "string \<Rightarrow> string list" where
  "singletonIf s = (if s \<noteq> [] then [s] else [])"

text \<open>\<^verbatim>\<open>xs.length > 0 ? xs[0] : ""\<close>, the primary value of a list.\<close>

definition primary :: "string list \<Rightarrow> string" where
  "primary xs = (if length xs > 0 then xs ! 0 else [])"

fun isUndefined :: "'n jsval \<Rightarrow> bool" where
  "isUndefined JUndefined = True"
| "isUndefined _ = False"

text \<open>\<^verbatim>\<open>Array.prototype.findIndex\<close>, \<open>None\<close> for \<^verbatim>\<open>-1\<close>.\<close>

fun findIndex :: "('a \<Rightarrow> bool) \<Rightarrow> 'a list \<Rightarrow> nat option" where
  "findIndex p [] = None"
| "findIndex p (x # xs) =
     (if p x then Some 0 else map_option Suc (findIndex p xs))"

text \<open>A \<^verbatim>\<open>map\<close> whose callback may throw.\<close>

fun mapE :: "('a \<Rightarrow> 'e + 'b) \<Rightarrow> 'a list \<Rightarrow> 'e + 'b list" where
  "mapE f [] = Inr []"
| "mapE f (x # xs) = bindE (f x) (\<lambda>y. bindE (mapE f xs) (\<lambda>ys. Inr (y # ys)))"

text \<open>
  \<^verbatim>\<open>try { xs = safeEnsureArray(v, label) } catch (e) { xs = fallback }\<close>, the shape of
  lines 192 to 204, 298 to 316, 478 to 502 and 702 to 720.
\<close>

definition tryEnsure :: "js_error + string list \<Rightarrow> string list \<Rightarrow> string list" where
  "tryEnsure r fallback = (case r of Inr xs \<Rightarrow> xs | Inl e \<Rightarrow> fallback)"

text \<open>\<^verbatim>\<open>error instanceof Error\<close>: the client's error object is not an \<^verbatim>\<open>Error\<close>.\<close>

fun instanceofError :: "js_error \<Rightarrow> bool" where
  "instanceofError (PostgrestError m) = False"
| "instanceofError _ = True"

section \<open>The persistence gateway\<close>

text \<open>
  Each operation is the source's function without its simulated delay and logging. A
  result is \<open>Inr\<close> the value the promise resolves to, or \<open>Inl\<close> the error it rejects with;
  an operation that writes also returns the local store it leaves.
\<close>

subsection \<open>\<^verbatim>\<open>getUseCases\<close>\<close>

text \<open>Lines 163 to 173: the callback of the local \<^verbatim>\<open>map\<close>.\<close>

definition normalizeLocal :: "('n, 'm) platform_scheme \<Rightarrow> 'n StoredUseCase \<Rightarrow> js_error + UseCase" where
  "normalizeLocal P useCase =
     bindE (ensureArray P (industries useCase)) (\<lambda>probeI.
     bindE (if length probeI > 0 then ensureArray P (industries useCase)
            else Inr (filter_Boolean [industry useCase])) (\<lambda>industriesN.
     bindE (ensureArray P (categories useCase)) (\<lambda>probeC.
     bindE (if length probeC > 0 then ensureArray P (categories useCase)
            else Inr (filter_Boolean [category useCase])) (\<lambda>categoriesN.
     Inr \<lparr> id' = id' useCase, title = title useCase, description = description useCase,
           content = content useCase, industry = industry useCase,
           category = category useCase,
           industries = industriesN, categories = categoriesN,
           imageUrl = imageUrl useCase, status = status useCase,
           createdAt = createdAt useCase, updatedAt = updatedAt useCase \<rparr>))))"

text \<open>Lines 187 to 231: the callback of the remote \<^verbatim>\<open>map\<close>.\<close>

definition rowToUseCase :: "('n, 'm) platform_scheme \<Rightarrow> 'n UseCaseRow \<Rightarrow> UseCase" where
  "rowToUseCase P useCase =
     (let industries0 = tryEnsure (ensureArray P (UseCaseRow.industries useCase))
                          (singletonIf (UseCaseRow.industry useCase));
          categories0 = tryEnsure (ensureArray P (UseCaseRow.categories useCase))
                          (singletonIf (UseCaseRow.category useCase));
          industries1 = (if length industries0 = 0 \<and> UseCaseRow.industry useCase \<noteq> []
                         then [UseCaseRow.industry useCase] else industries0);
          categories1 = (if length categories0 = 0 \<and> UseCaseRow.category useCase \<noteq> []
                         then [UseCaseRow.category useCase] else categories0)
      in \<lparr> id' = UseCaseRow.id' useCase,
           title = UseCaseRow.title useCase,
           description = UseCaseRow.description useCase,
           content = UseCaseRow.content useCase,
           industry = orElse (UseCaseRow.industry useCase) (primary industries1),
           category = orElse (UseCaseRow.category useCase) (primary categories1),
           industries = industries1,
           categories = categories1,
           imageUrl = UseCaseRow.image_url useCase,
           status = UseCaseRow.status useCase,
           createdAt = UseCaseRow.created_at useCase,
           updatedAt = UseCaseRow.updated_at useCase \<rparr>)"

definition getUseCases_try :: "'n env \<Rightarrow> 'n StoredUseCase list \<Rightarrow> js_error + UseCase list" where
  "getUseCases_try E useCases =
     (if useLocalStorageFallback E then mapE (normalizeLocal E) useCases
      else
        (let r = select_all E in
         case error r of
           Some e \<Rightarrow> Inl (PostgrestError e)
         | None \<Rightarrow> Inr (map (rowToUseCase E) (case data r of None \<Rightarrow> [] | Some rows \<Rightarrow> rows))))"

definition getUseCases :: "'n env \<Rightarrow> 'n StoredUseCase list \<Rightarrow> js_error + UseCase list" where
  "getUseCases E useCases =
     (case getUseCases_try E useCases of
        Inr result \<Rightarrow> Inr result
      | Inl e \<Rightarrow> Inl (Error ''Failed to fetch use cases''))"

subsection \<open>\<^verbatim>\<open>getUseCaseById\<close>\<close>

text \<open>Lines 255 to 281: the local record that was found.\<close>

definition foundLocal :: "('n, 'm) platform_scheme \<Rightarrow> 'n StoredUseCase \<Rightarrow> js_error + UseCase" where
  "foundLocal P useCase =
     bindE (safeEnsureArray P (industries useCase) ''localstorage_get_industries'') (\<lambda>industriesArray.
     bindE (safeEnsureArray P (categories useCase) ''localstorage_get_categories'') (\<lambda>categoriesArray.
     Inr \<lparr> id' = id' useCase, title = title useCase, description = description useCase,
           content = content useCase, industry = industry useCase,
           category = category useCase,
           industries = (if length industriesArray > 0 then industriesArray
                         else filter_Boolean [industry useCase]),
           categories = (if length categoriesArray > 0 then categoriesArray
                         else filter_Boolean [category useCase]),
           imageUrl = imageUrl useCase, status = status useCase,
           createdAt = createdAt useCase, updatedAt = updatedAt useCase \<rparr>))"

text \<open>Lines 295 to 335: the remote row that was found.\<close>

definition foundRemote :: "'n env \<Rightarrow> 'n UseCaseRow \<Rightarrow> UseCase" where
  "foundRemote E row =
     (let industriesArray =
            tryEnsure (safeEnsureArray E (UseCaseRow.industries row) ''supabase_get_industries'')
              (singletonIf (UseCaseRow.industry row));
          categoriesArray =
            tryEnsure (safeEnsureArray E (UseCaseRow.categories row) ''supabase_get_categories'')
              (singletonIf (UseCaseRow.category row))
      in \<lparr> id' = UseCaseRow.id' row,
           title = orElse (UseCaseRow.title row) [],
           description = orElse (UseCaseRow.description row) [],
           content = orElse (UseCaseRow.content row) [],
           industry = orElse (UseCaseRow.industry row) (primary industriesArray),
           category = orElse (UseCaseRow.category row) (primary categoriesArray),
           industries = industriesArray,
           categories = categoriesArray,
           imageUrl = orElse (UseCaseRow.image_url row) [],
           status = orElse (UseCaseRow.status row) ''draft'',
           createdAt = orElse (UseCaseRow.created_at row) (Date_toISOString E),
           updatedAt = orElse (UseCaseRow.updated_at row) (Date_toISOString E) \<rparr>)"

definition getUseCaseById_try ::
  "'n env \<Rightarrow> string \<Rightarrow> 'n StoredUseCase list \<Rightarrow> js_error + UseCase option" where
  "getUseCaseById_try E i useCases =
     (if useLocalStorageFallback E then
        (case find (\<lambda>useCase. id' useCase = i) useCases of
           None \<Rightarrow> Inr None
         | Some useCase \<Rightarrow> bindE (foundLocal E useCase) (\<lambda>result. Inr (Some result)))
      else
        (let r = select_eq_id_single E i in
         case error r of
           Some e \<Rightarrow> Inl (PostgrestError e)
         | None \<Rightarrow>
             (case data r of
                None \<Rightarrow> Inr None
              | Some row \<Rightarrow> Inr (Some (foundRemote E row)))))"

definition getUseCaseById ::
  "'n env \<Rightarrow> string \<Rightarrow> 'n StoredUseCase list \<Rightarrow> js_error + UseCase option" where
  "getUseCaseById E i useCases =
     (case getUseCaseById_try E i useCases of
        Inr result \<Rightarrow> Inr result
      | Inl e \<Rightarrow> Inl (Error (''Failed to fetch use case with ID '' @ i)))"

subsection \<open>\<^verbatim>\<open>createUseCase\<close>\<close>

text \<open>
  A step that may throw, inside an operation that carries the local store: the exception
  leaves the store as it is at that point.
\<close>

definition bindS :: "'e + 'a \<Rightarrow> 's \<Rightarrow> ('a \<Rightarrow> ('e + 'b) \<times> 's) \<Rightarrow> ('e + 'b) \<times> 's" where
  "bindS r s f = (case r of Inl e \<Rightarrow> (Inl e, s) | Inr x \<Rightarrow> f x)"

definition placeholderImageUrl :: string where
  "placeholderImageUrl =
     ''https://images.unsplash.com/photo-1579546929518-9e396f3cc809?w=800&q=80''"

text \<open>Lines 431 to 454: the object \<^verbatim>\<open>dbData\<close> sent to the remote store.\<close>

definition dbDataOf ::
  "'n UseCaseFormData \<Rightarrow> string list \<Rightarrow> string list \<Rightarrow> string \<Rightarrow> string \<Rightarrow> DbData" where
  "dbDataOf d industriesArray categoriesArray imageUrlV now =
     \<lparr> DbData.title = UseCaseFormData.title d,
       DbData.description = UseCaseFormData.description d,
       DbData.content = UseCaseFormData.content d,
       DbData.industry = primary industriesArray,
       DbData.category = primary categoriesArray,
       DbData.industries = industriesArray,
       DbData.categories = categoriesArray,
       DbData.image_url = imageUrlV,
       DbData.status = UseCaseFormData.status d,
       DbData.created_at = now,
       DbData.updated_at = now \<rparr>"

text \<open>Lines 458 to 524: the insertion, and the entity built from the row it returns.\<close>

definition insertUseCase :: "'n env \<Rightarrow> DbData \<Rightarrow> js_error + UseCase" where
  "insertUseCase E dbData =
     (let r = insert_select_single E dbData
      in case error r of
           Some m \<Rightarrow> Inl (Error (''Failed to create use case: '' @ m))
         | None \<Rightarrow>
             (case data r of
                None \<Rightarrow> Inl (TypeError ''Cannot read properties of null'')
              | Some useCaseData \<Rightarrow>
                  (let returnIndustriesArray =
                         tryEnsure (safeEnsureArray E (UseCaseRow.industries useCaseData)
                                      ''returned_create_industries'')
                           (filter_Boolean [UseCaseRow.industry useCaseData]);
                       returnCategoriesArray =
                         tryEnsure (safeEnsureArray E (UseCaseRow.categories useCaseData)
                                      ''returned_create_categories'')
                           (filter_Boolean [UseCaseRow.category useCaseData])
                   in Inr \<lparr> id' = UseCaseRow.id' useCaseData,
                            title = UseCaseRow.title useCaseData,
                            description = UseCaseRow.description useCaseData,
                            content = UseCaseRow.content useCaseData,
                            industry = orElse (UseCaseRow.industry useCaseData) [],
                            category = orElse (UseCaseRow.category useCaseData) [],
                            industries = returnIndustriesArray,
                            categories = returnCategoriesArray,
                            imageUrl = UseCaseRow.image_url useCaseData,
                            status = UseCaseRow.status useCaseData,
                            createdAt = UseCaseRow.created_at useCaseData,
                            updatedAt = UseCaseRow.updated_at useCaseData \<rparr>)))"

text \<open>Lines 429 to 524: the remote branch, after validation.\<close>

definition createRemote ::
  "'n env \<Rightarrow> 'n UseCaseFormData \<Rightarrow> string list \<Rightarrow> string list \<Rightarrow> string \<Rightarrow> string
     \<Rightarrow> js_error + UseCase" where
  "createRemote E d industriesArray categoriesArray imageUrlV now =
     insertUseCase E (dbDataOf d industriesArray categoriesArray imageUrlV now)"

text \<open>Lines 356 to 427 and the call of the remote branch: the body of the \<^verbatim>\<open>try\<close>.\<close>

definition createUseCase_try ::
  "'n env \<Rightarrow> 'n UseCaseFormData \<Rightarrow> 'n StoredUseCase list
     \<Rightarrow> (js_error + UseCase) \<times> 'n StoredUseCase list" where
  "createUseCase_try E d useCases =
     (if trim (UseCaseFormData.title d) = [] then (Inl (Error ''Title is required''), useCases)
      else if trim (UseCaseFormData.description d) = [] then
        (Inl (Error ''Description is required''), useCases)
      else if trim (UseCaseFormData.content d) = [] then
        (Inl (Error ''Content is required''), useCases)
      else
        bindS (safeEnsureArray E (UseCaseFormData.industries d) ''create_industries'') useCases
          (\<lambda>industriesArray.
        if length industriesArray = 0 then
          (Inl (Error ''At least one industry is required''), useCases)
        else
        bindS (safeEnsureArray E (UseCaseFormData.categories d) ''create_categories'') useCases
          (\<lambda>categoriesArray.
        if length categoriesArray = 0 then
          (Inl (Error ''At least one category is required''), useCases)
        else
          (let imageUrlV = orElse (UseCaseFormData.imageUrl d) placeholderImageUrl;
               now = Date_toISOString E
           in if useLocalStorageFallback E then
                (let newUseCase =
                       \<lparr> id' = ''usecase_'' @ Number_toString E (Date_now E),
                         title = UseCaseFormData.title d,
                         description = UseCaseFormData.description d,
                         content = UseCaseFormData.content d,
                         industry = primary industriesArray,
                         category = primary categoriesArray,
                         industries = industriesArray,
                         categories = categoriesArray,
                         imageUrl = imageUrlV,
                         status = UseCaseFormData.status d,
                         createdAt = now,
                         updatedAt = now \<rparr>
                 in (Inr newUseCase, useCases @ [toStored newUseCase]))
              else (createRemote E d industriesArray categoriesArray imageUrlV now, useCases)))))"

text \<open>Lines 526 to 531: the \<^verbatim>\<open>catch\<close> of \<^verbatim>\<open>createUseCase\<close> keeps the message.\<close>

definition createUseCase ::
  "'n env \<Rightarrow> 'n UseCaseFormData \<Rightarrow> 'n StoredUseCase list
     \<Rightarrow> (js_error + UseCase) \<times> 'n StoredUseCase list" where
  "createUseCase E d useCases =
     (case createUseCase_try E d useCases of
        (Inr result, s) \<Rightarrow> (Inr result, s)
      | (Inl e, s) \<Rightarrow>
          (Inl (Error (if instanceofError e then message e else ''Failed to create use case'')), s))"

subsection \<open>\<^verbatim>\<open>updateUseCase\<close>\<close>

text \<open>Lines 558 to 608: the local record at \<^verbatim>\<open>useCaseIndex\<close> is rebuilt and written back.\<close>

definition updateLocal ::
  "'n env \<Rightarrow> 'n PartialUseCaseFormData \<Rightarrow> 'n StoredUseCase list \<Rightarrow> nat \<Rightarrow> string
     \<Rightarrow> (js_error + UseCase) \<times> 'n StoredUseCase list" where
  "updateLocal E d useCases useCaseIndex now =
     (let useCase = useCases ! useCaseIndex in
      bindS (safeEnsureArray E (orElseValue E (industries useCase) (JArr [])) ''existing_industries'')
        useCases (\<lambda>existingIndustries.
      bindS (if \<not> isUndefined (PartialUseCaseFormData.industries d)
             then safeEnsureArray E (PartialUseCaseFormData.industries d) ''new_industries''
             else Inr existingIndustries) useCases (\<lambda>industriesArray.
      bindS (safeEnsureArray E (orElseValue E (categories useCase) (JArr [])) ''existing_categories'')
        useCases (\<lambda>existingCategories.
      bindS (if \<not> isUndefined (PartialUseCaseFormData.categories d)
             then safeEnsureArray E (PartialUseCaseFormData.categories d) ''new_categories''
             else Inr existingCategories) useCases (\<lambda>categoriesArray.
      (let updatedUseCase =
             \<lparr> id' = id' useCase,
               title = (case PartialUseCaseFormData.title d of
                          Some t \<Rightarrow> t | None \<Rightarrow> title useCase),
               description = (case PartialUseCaseFormData.description d of
                                Some t \<Rightarrow> t | None \<Rightarrow> description useCase),
               content = (case PartialUseCaseFormData.content d of
                            Some t \<Rightarrow> t | None \<Rightarrow> content useCase),
               industry = primary industriesArray,
               category = primary categoriesArray,
               industries = industriesArray,
               categories = categoriesArray,
               imageUrl = (case PartialUseCaseFormData.imageUrl d of
                             Some t \<Rightarrow> t | None \<Rightarrow> imageUrl useCase),
               status = (case PartialUseCaseFormData.status d of
                           Some t \<Rightarrow> t | None \<Rightarrow> status useCase),
               createdAt = createdAt useCase,
               updatedAt = now \<rparr>
       in (Inr updatedUseCase, useCases[useCaseIndex := toStored updatedUseCase])))))))"

text \<open>Lines 611 to 680: the object \<^verbatim>\<open>updateData\<close> sent to the remote store.\<close>

definition updateDataOf ::
  "'n env \<Rightarrow> 'n PartialUseCaseFormData \<Rightarrow> string \<Rightarrow> js_error + UpdateData" where
  "updateDataOf E d now =
     bindE (if \<not> isUndefined (PartialUseCaseFormData.industries d)
            then bindE (safeEnsureArray E (PartialUseCaseFormData.industries d) ''industries_to_update'')
                   (\<lambda>xs. Inr (Some xs))
            else Inr None) (\<lambda>newIndustries.
     bindE (if \<not> isUndefined (PartialUseCaseFormData.categories d)
            then bindE (safeEnsureArray E (PartialUseCaseFormData.categories d) ''categories_to_update'')
                   (\<lambda>xs. Inr (Some xs))
            else Inr None) (\<lambda>newCategories.
     Inr \<lparr> UpdateData.updated_at = now,
           UpdateData.title = PartialUseCaseFormData.title d,
           UpdateData.description = PartialUseCaseFormData.description d,
           UpdateData.content = PartialUseCaseFormData.content d,
           UpdateData.industries = newIndustries,
           UpdateData.industry = map_option primary newIndustries,
           UpdateData.categories = newCategories,
           UpdateData.category = map_option primary newCategories,
           UpdateData.image_url = PartialUseCaseFormData.imageUrl d,
           UpdateData.status = PartialUseCaseFormData.status d \<rparr>))"

text \<open>Lines 684 to 739: the update, and the entity built from the row it returns.\<close>

definition sendUpdate :: "'n env \<Rightarrow> string \<Rightarrow> UpdateData \<Rightarrow> string \<Rightarrow> js_error + UseCase" where
  "sendUpdate E i updateData now =
     (let r = update_eq_id_select_single E i updateData
      in case error r of
           Some m \<Rightarrow> Inl (Error (''Failed to update use case: '' @ m))
         | None \<Rightarrow>
             (case data r of
                None \<Rightarrow> Inl (TypeError ''Cannot read properties of null'')
              | Some useCaseData \<Rightarrow>
                  (let industriesArray =
                         tryEnsure (safeEnsureArray E (UseCaseRow.industries useCaseData)
                                      ''returned_industries'')
                           (singletonIf (UseCaseRow.industry useCaseData));
                       categoriesArray =
                         tryEnsure (safeEnsureArray E (UseCaseRow.categories useCaseData)
                                      ''returned_categories'')
                           (singletonIf (UseCaseRow.category useCaseData))
                   in Inr \<lparr> id' = UseCaseRow.id' useCaseData,
                            title = orElse (UseCaseRow.title useCaseData) [],
                            description = orElse (UseCaseRow.description useCaseData) [],
                            content = orElse (UseCaseRow.content useCaseData) [],
                            industry = orElse (UseCaseRow.industry useCaseData) [],
                            category = orElse (UseCaseRow.category useCaseData) [],
                            industries = industriesArray,
                            categories = categoriesArray,
                            imageUrl = orElse (UseCaseRow.image_url useCaseData) [],
                            status = orElse (UseCaseRow.status useCaseData) ''draft'',
                            createdAt = orElse (UseCaseRow.created_at useCaseData) now,
                            updatedAt = orElse (UseCaseRow.updated_at useCaseData) now \<rparr>)))"

text \<open>Lines 611 to 739: the remote branch.\<close>

definition updateRemote ::
  "'n env \<Rightarrow> string \<Rightarrow> 'n PartialUseCaseFormData \<Rightarrow> string \<Rightarrow> js_error + UseCase" where
  "updateRemote E i d now =
     bindE (updateDataOf E d now) (\<lambda>updateData. sendUpdate E i updateData now)"

definition updateUseCase_try ::
  "'n env \<Rightarrow> string \<Rightarrow> 'n PartialUseCaseFormData \<Rightarrow> 'n StoredUseCase list
     \<Rightarrow> (js_error + UseCase) \<times> 'n StoredUseCase list" where
  "updateUseCase_try E i d useCases =
     (let now = Date_toISOString E in
      if useLocalStorageFallback E then
        (case findIndex (\<lambda>useCase. id' useCase = i) useCases of
           None \<Rightarrow> (Inl (Error (''Use case with ID '' @ i @ '' not found'')), useCases)
         | Some useCaseIndex \<Rightarrow> updateLocal E d useCases useCaseIndex now)
      else (updateRemote E i d now, useCases))"

text \<open>Lines 741 to 748: the \<^verbatim>\<open>catch\<close> of \<^verbatim>\<open>updateUseCase\<close> keeps the message.\<close>

definition updateUseCase ::
  "'n env \<Rightarrow> string \<Rightarrow> 'n PartialUseCaseFormData \<Rightarrow> 'n StoredUseCase list
     \<Rightarrow> (js_error + UseCase) \<times> 'n StoredUseCase list" where
  "updateUseCase E i d useCases =
     (case updateUseCase_try E i d useCases of
        (Inr result, s) \<Rightarrow> (Inr result, s)
      | (Inl e, s) \<Rightarrow>
          (Inl (Error (if instanceofError e then message e
                       else ''Failed to update use case with ID '' @ i)), s))"

subsection \<open>\<^verbatim>\<open>deleteUseCase\<close>\<close>

definition deleteUseCase_try ::
  "'n env \<Rightarrow> string \<Rightarrow> 'n StoredUseCase list \<Rightarrow> (js_error + unit) \<times> 'n StoredUseCase list" where
  "deleteUseCase_try E i useCases =
     (if useLocalStorageFallback E then
        (let updatedUseCases = filter (\<lambda>useCase. id' useCase \<noteq> i) useCases in
         if length useCases = length updatedUseCases then
           (Inl (Error (''Use case with ID '' @ i @ '' not found'')), useCases)
         else (Inr (), updatedUseCases))
      else
        (case delete_eq_id E i of
           Some m \<Rightarrow> (Inl (Error (''Failed to delete use case: '' @ m)), useCases)
         | None \<Rightarrow> (Inr (), useCases)))"

text \<open>
  Lines 779 to 782: the \<^verbatim>\<open>catch\<close> of \<^verbatim>\<open>deleteUseCase\<close> throws a new error with a
  message of its own, whatever was caught.
\<close>

definition deleteUseCase ::
  "'n env \<Rightarrow> string \<Rightarrow> 'n StoredUseCase list \<Rightarrow> (js_error + unit) \<times> 'n StoredUseCase list" where
  "deleteUseCase E i useCases =
     (case deleteUseCase_try E i useCases of
        (Inr result, s) \<Rightarrow> (Inr result, s)
      | (Inl e, s) \<Rightarrow> (Inl (Error (''Failed to delete use case with ID '' @ i)), s))"

section \<open>Notions used in the statements\<close>

text \<open>The list \<^verbatim>\<open>safeEnsureArray\<close> returns for a value, whatever the label.\<close>

definition ensured :: "('n, 'm) platform_scheme \<Rightarrow> 'n jsval \<Rightarrow> string list" where
  "ensured P v = (case safeEnsureArray P v [] of Inr xs \<Rightarrow> xs | Inl e \<Rightarrow> [])"

text \<open>
  The relation between the scalar and the list fields of an entity that the data model
  asks for: the scalar is the first element of a list that has one, and the empty
  string beside an empty list.
\<close>

definition scalarsDerived :: "UseCase \<Rightarrow> bool" where
  "scalarsDerived u =
     ((industries u \<noteq> [] \<longrightarrow> industry u = industries u ! 0) \<and>
      (industries u = [] \<longrightarrow> industry u = []) \<and>
      (categories u \<noteq> [] \<longrightarrow> category u = categories u ! 0) \<and>
      (categories u = [] \<longrightarrow> category u = []))"

text \<open>
  The same relation inside a backend record, between a scalar field and what its list
  field normalizes to (\<open>rowAgrees\<close>), and its weaker forms: \<open>storedAgreesOrEmpty\<close> also
  admits an empty list beside any scalar (a record written before the list fields
  existed), \<open>rowAgreesForList\<close> admits that and an empty scalar beside any list,
  \<open>rowAgreesForGetById\<close> admits an empty scalar beside any list.
\<close>

definition storedAgreesOrEmpty :: "('n, 'm) platform_scheme \<Rightarrow> 'n StoredUseCase \<Rightarrow> bool" where
  "storedAgreesOrEmpty P r =
     ((ensured P (industries r) = [] \<or> industry r = primary (ensured P (industries r))) \<and>
      (ensured P (categories r) = [] \<or> category r = primary (ensured P (categories r))))"




text \<open>
  A stored record that is an entity with derived scalars, written back: what the local
  \<^verbatim>\<open>createUseCase\<close> and \<^verbatim>\<open>updateUseCase\<close> put into the store.
\<close>

definition writtenByGateway :: "'n StoredUseCase \<Rightarrow> bool" where
  "writtenByGateway r = (\<exists>u. scalarsDerived u \<and> r = toStored u)"

section \<open>A concrete environment for the worked examples\<close>

text \<open>
  Numbers are integers printed in decimal, as the engine prints an integer below
  \<open>10\<^sup>2\<^sup>1\<close>. \<open>demoParse\<close> is a table of \<^verbatim>\<open>JSON.parse\<close> for the texts the
  examples hand to it: three arrays, and \<^verbatim>\<open>[not valid json]\<close>, which the engine
  rejects. It is used on these texts only. The object in the third array has the number 1
  where a \<^verbatim>\<open>toString\<close> method is looked up, so \<^verbatim>\<open>String\<close> throws on it.
\<close>

definition digitChar :: "int \<Rightarrow> char" where
  "digitChar d = char_of (48 + d)"

function decimal :: "int \<Rightarrow> string" where
  "decimal n = (if n < 10 then [digitChar n] else decimal (n div 10) @ [digitChar (n mod 10)])"
  by pat_completeness auto
termination
  by (relation "measure nat") auto

definition showInt :: "int \<Rightarrow> string" where
  "showInt n = (if n < 0 then CHR ''-'' # decimal (- n) else decimal n)"

definition demoParse :: "string \<Rightarrow> int jsval option" where
  \<open>demoParse s =
     (if s = ''["x","y"]'' then Some (JArr [JStr ''x'', JStr ''y''])
      else if s = ''[]'' then Some (JArr [])
      else if s = ''["a",{"toString":1}]'' then Some (JArr [JStr ''a'', JObj None])
      else None)\<close>

definition demoPlatform :: "int platform" where
  "demoPlatform =
     \<lparr> Number_toString = showInt, Number_toBoolean = (\<lambda>n. n \<noteq> 0), JSON_parse = demoParse \<rparr>"

text \<open>
  A remote store for the examples: a table that answers a selection with its rows, an
  insertion with the row it stored and an update with the rows it changed. A query that
  ends in \<^verbatim>\<open>.single()\<close> is answered as the Supabase client documents it: the result
  must be exactly one row, which becomes \<^verbatim>\<open>data\<close>; otherwise \<^verbatim>\<open>data\<close> is
  \<^verbatim>\<open>null\<close> and \<^verbatim>\<open>error\<close> is set.
\<close>

definition single :: "'r list PostgrestResponse \<Rightarrow> 'r PostgrestResponse" where
  "single r =
     (case error r of
        Some e \<Rightarrow> \<lparr> data = None, error = Some e \<rparr>
      | None \<Rightarrow>
          (case data r of
             Some [row] \<Rightarrow> \<lparr> data = Some row, error = None \<rparr>
           | _ \<Rightarrow> \<lparr> data = None,
                    error = Some ''JSON object requested, multiple (or no) rows returned'' \<rparr>))"

definition insertedRow :: "DbData \<Rightarrow> int UseCaseRow" where
  "insertedRow d =
     \<lparr> UseCaseRow.id' = ''3f2b8c1e-5a47-4d0b-9c6e-7a1d2e4f6b80'',
       UseCaseRow.title = DbData.title d,
       UseCaseRow.description = DbData.description d,
       UseCaseRow.content = DbData.content d,
       UseCaseRow.industry = DbData.industry d,
       UseCaseRow.category = DbData.category d,
       UseCaseRow.industries = JArr (map JStr (DbData.industries d)),
       UseCaseRow.categories = JArr (map JStr (DbData.categories d)),
       UseCaseRow.image_url = DbData.image_url d,
       UseCaseRow.status = DbData.status d,
       UseCaseRow.created_at = DbData.created_at d,
       UseCaseRow.updated_at = DbData.updated_at d \<rparr>"

definition updatedRow :: "UpdateData \<Rightarrow> int UseCaseRow \<Rightarrow> int UseCaseRow" where
  "updatedRow u r =
     \<lparr> UseCaseRow.id' = UseCaseRow.id' r,
       UseCaseRow.title = (case UpdateData.title u of Some t \<Rightarrow> t | None \<Rightarrow> UseCaseRow.title r),
       UseCaseRow.description =
         (case UpdateData.description u of Some t \<Rightarrow> t | None \<Rightarrow> UseCaseRow.description r),
       UseCaseRow.content =
         (case UpdateData.content u of Some t \<Rightarrow> t | None \<Rightarrow> UseCaseRow.content r),
       UseCaseRow.industry =
         (case UpdateData.industry u of Some t \<Rightarrow> t | None \<Rightarrow> UseCaseRow.industry r),
       UseCaseRow.category =
         (case UpdateData.category u of Some t \<Rightarrow> t | None \<Rightarrow> UseCaseRow.category r),
       UseCaseRow.industries =
         (case UpdateData.industries u of
            Some xs \<Rightarrow> JArr (map JStr xs) | None \<Rightarrow> UseCaseRow.industries r),
       UseCaseRow.categories =
         (case UpdateData.categories u of
            Some xs \<Rightarrow> JArr (map JStr xs) | None \<Rightarrow> UseCaseRow.categories r),
       UseCaseRow.image_url =
         (case UpdateData.image_url u of Some t \<Rightarrow> t | None \<Rightarrow> UseCaseRow.image_url r),
       UseCaseRow.status =
         (case UpdateData.status u of Some t \<Rightarrow> t | None \<Rightarrow> UseCaseRow.status r),
       UseCaseRow.created_at = UseCaseRow.created_at r,
       UseCaseRow.updated_at = UpdateData.updated_at u \<rparr>"

definition demoEnv :: "bool \<Rightarrow> int UseCaseRow list \<Rightarrow> int env" where
  "demoEnv local table =
     \<lparr> Number_toString = showInt,
       Number_toBoolean = (\<lambda>n. n \<noteq> 0),
       JSON_parse = demoParse,
       useLocalStorageFallback = local,
       Date_now = 1700000000000,
       Date_toISOString = ''2023-11-14T22:13:20.000Z'',
       select_all = \<lparr> data = Some table, error = None \<rparr>,
       select_eq_id_single =
         (\<lambda>i. single \<lparr> data = Some (filter (\<lambda>r. UseCaseRow.id' r = i) table),
                       error = None \<rparr>),
       insert_select_single = (\<lambda>d. single \<lparr> data = Some [insertedRow d], error = None \<rparr>),
       update_eq_id_select_single =
         (\<lambda>i u. single
            \<lparr> data = Some (map (updatedRow u) (filter (\<lambda>r. UseCaseRow.id' r = i) table)),
              error = None \<rparr>),
       delete_eq_id = (\<lambda>i. None) \<rparr>"

text \<open>A remote store that cannot be reached: every query is answered with an error.\<close>

definition offlineEnv :: "int env" where
  "offlineEnv =
     \<lparr> Number_toString = showInt,
       Number_toBoolean = (\<lambda>n. n \<noteq> 0),
       JSON_parse = demoParse,
       useLocalStorageFallback = False,
       Date_now = 1700000000000,
       Date_toISOString = ''2023-11-14T22:13:20.000Z'',
       select_all = \<lparr> data = None, error = Some ''TypeError: Failed to fetch'' \<rparr>,
       select_eq_id_single = (\<lambda>i. \<lparr> data = None, error = Some ''TypeError: Failed to fetch'' \<rparr>),
       insert_select_single = (\<lambda>d. \<lparr> data = None, error = Some ''TypeError: Failed to fetch'' \<rparr>),
       update_eq_id_select_single =
         (\<lambda>i u. \<lparr> data = None, error = Some ''TypeError: Failed to fetch'' \<rparr>),
       delete_eq_id = (\<lambda>i. Some ''TypeError: Failed to fetch'') \<rparr>"

text \<open>Records for the examples.\<close>

definition financeForm :: "int UseCaseFormData" where
  "financeForm =
     \<lparr> UseCaseFormData.title = ''Fraud detection'',
       UseCaseFormData.description = ''Scoring card payments'',
       UseCaseFormData.content = ''# Fraud detection'',
       UseCaseFormData.industries = JArr [JStr ''Finance'', JStr ''Retail''],
       UseCaseFormData.categories = JArr [JStr ''Machine Learning''],
       UseCaseFormData.imageUrl = [],
       UseCaseFormData.status = ''draft'' \<rparr>"

definition oldUseCase :: "int StoredUseCase" where
  "oldUseCase =
     \<lparr> id' = ''usecase_1690000000000'', title = ''Churn prediction'',
       description = ''Who leaves next month'', content = ''# Churn'',
       industry = ''Telecom'', category = ''Old'',
       industries = JArr [JStr ''Telecom''], categories = JArr [JStr ''Old''],
       imageUrl = ''https://example.com/churn.png'', status = ''published'',
       createdAt = ''2023-07-22T04:26:40.000Z'', updatedAt = ''2023-07-22T04:26:40.000Z'' \<rparr>"

definition onlyCategories :: "int PartialUseCaseFormData" where
  "onlyCategories =
     \<lparr> PartialUseCaseFormData.title = None,
       PartialUseCaseFormData.description = None,
       PartialUseCaseFormData.content = None,
       PartialUseCaseFormData.industries = JUndefined,
       PartialUseCaseFormData.categories = JArr [JStr ''NewCat''],
       PartialUseCaseFormData.imageUrl = None,
       PartialUseCaseFormData.status = None \<rparr>"

text \<open>
  A local record written before the list fields existed (the two properties are absent and
  read as \<^verbatim>\<open>undefined\<close>), and an update that gives a title only.
\<close>

definition legacyUseCase :: "int StoredUseCase" where
  "legacyUseCase =
     \<lparr> id' = ''usecase_1650000000000'', title = ''Demand forecast'',
       description = ''Weekly demand per store'', content = ''# Demand'',
       industry = ''Retail'', category = ''Forecasting'',
       industries = JUndefined, categories = JUndefined,
       imageUrl = ''https://example.com/demand.png'', status = ''published'',
       createdAt = ''2022-04-15T05:20:00.000Z'', updatedAt = ''2022-04-15T05:20:00.000Z'' \<rparr>"

definition onlyTitle :: "int PartialUseCaseFormData" where
  "onlyTitle =
     \<lparr> PartialUseCaseFormData.title = Some ''Demand forecasting'',
       PartialUseCaseFormData.description = None,
       PartialUseCaseFormData.content = None,
       PartialUseCaseFormData.industries = JUndefined,
       PartialUseCaseFormData.categories = JUndefined,
       PartialUseCaseFormData.imageUrl = None,
       PartialUseCaseFormData.status = None \<rparr>"


definition financeRow :: "int UseCaseRow" where
  "financeRow =
     \<lparr> UseCaseRow.id' = ''3f2b8c1e-5a47-4d0b-9c6e-7a1d2e4f6b80'',
       UseCaseRow.title = ''Fraud detection'',
       UseCaseRow.description = ''Scoring card payments'',
       UseCaseRow.content = ''# Fraud detection'',
       UseCaseRow.industry = ''Finance'',
       UseCaseRow.category = ''Machine Learning'',
       UseCaseRow.industries = JArr [JStr ''Finance'', JStr ''Retail''],
       UseCaseRow.categories = JArr [JStr ''Machine Learning''],
       UseCaseRow.image_url = ''https://example.com/fraud.png'',
       UseCaseRow.status = ''draft'',
       UseCaseRow.created_at = ''2023-11-14T22:13:20.000Z'',
       UseCaseRow.updated_at = ''2023-11-14T22:13:20.000Z'' \<rparr>"

definition legacyRow :: "int UseCaseRow" where
  "legacyRow =
     \<lparr> UseCaseRow.id' = ''5b7e9a10-2c3d-4e5f-a6b7-c8d9e0f1a2b3'',
       UseCaseRow.title = ''Demand forecast'',
       UseCaseRow.description = ''Weekly demand per store'',
       UseCaseRow.content = ''# Demand'',
       UseCaseRow.industry = ''Retail'',
       UseCaseRow.category = ''Forecasting'',
       UseCaseRow.industries = JNull,
       UseCaseRow.categories = JNull,
       UseCaseRow.image_url = ''https://example.com/demand.png'',
       UseCaseRow.status = ''published'',
       UseCaseRow.created_at = ''2022-11-02T09:30:00.000Z'',
       UseCaseRow.updated_at = ''2022-11-02T09:30:00.000Z'' \<rparr>"

section \<open>Properties of the normalization adapter\<close>

lemma String_js_simps [simp]:
  "String_js P JNull = Inr ''null''"
  "String_js P JUndefined = Inr ''undefined''"
  "String_js P (JBool b) = Inr (if b then ''true'' else ''false'')"
  "String_js P (JNum n) = Inr (Number_toString P n)"
  "String_js P (JStr s) = Inr s"
  "String_js P (JObj t) = (case t of None \<Rightarrow> Inl (TypeError ''Cannot convert object to primitive value'') | Some s \<Rightarrow> Inr s)"
  by (simp_all add: String_js_def)

lemma bindE_simps [simp]:
  "bindE (Inl e) f = Inl e"
  "bindE (Inr x) f = f x"
  by (simp_all add: bindE_def)

lemma safeEnsureArray_total: "\<exists>xs. safeEnsureArray P v l = Inr xs"
  by (cases "safeEnsureArray_try P v l") (simp_all add: safeEnsureArray_def)

lemma safeEnsureArray_label: "safeEnsureArray P v l = safeEnsureArray P v l'"
  by (simp add: safeEnsureArray_def safeEnsureArray_try_def debugValue_def)

lemma safeEnsureArray_ensured: "safeEnsureArray P v l = Inr (ensured P v)"
proof -
  obtain xs where "safeEnsureArray P v [] = Inr xs"
    using safeEnsureArray_total by blast
  then show ?thesis
    using safeEnsureArray_label [of P v l "[]"] by (simp add: ensured_def)
qed

lemma map_String_Cons:
  "map_String P (a # items) = Inr ys \<longleftrightarrow>
     (\<exists>y ys'. ys = y # ys' \<and> ToString P a = Some y \<and> map_String P items = Inr ys')"
  by (cases "ToString P a"; cases "map_String P items") (auto simp: String_js_def)

lemma map_String_those:
  "map_String P items = Inr ys \<longleftrightarrow> map (ToString P) items = map Some ys"
proof (induction items arbitrary: ys)
  case Nil
  then show ?case by auto
next
  case (Cons a items)
  show ?case
    unfolding map_String_Cons using Cons.IH by (cases ys) auto
qed

lemma Array_join_defined:
  "map (ToString P) items = map Some ys \<Longrightarrow> \<exists>t. Array_join P items = Some t"
proof (induction items arbitrary: ys)
  case Nil
  then show ?case by simp
next
  case (Cons a items)
  then obtain y ys' where ys: "ys = y # ys'" "ToString P a = Some y"
    "map (ToString P) items = map Some ys'"
    by (cases ys) auto
  from Cons.IH [OF ys(3)] obtain t where "Array_join P items = Some t" by blast
  with ys show ?case by simp
qed



lemma debugValue_ok: "ToString P v = Some t \<Longrightarrow> debugValue P l v = Inr ()"
  by (simp add: debugValue_def String_js_def)

lemma try_ok:
  "ToString P v = Some t \<Longrightarrow> safeEnsureArray_try P v l = safeEnsureArray_branches P v"
  by (simp add: safeEnsureArray_try_def debugValue_ok)

lemma safeEnsureArray_ok:
  "ToString P v = Some t \<Longrightarrow> safeEnsureArray_branches P v = Inr xs
     \<Longrightarrow> safeEnsureArray P v l = Inr xs"
  by (simp add: safeEnsureArray_def try_ok)

lemma parseBracketed_total: "\<exists>xs. parseBracketed P s = Inr xs"
  unfolding parseBracketed_def by (simp split: sum.splits)

lemma safeEnsureArray_array:
  assumes "map (ToString P) items = map Some ys"
  shows "safeEnsureArray P (JArr items) l = Inr ys"
proof -
  obtain t where "ToString P (JArr items) = Some t"
    using Array_join_defined [OF assms] by auto
  moreover have "safeEnsureArray_branches P (JArr items) = Inr ys"
    using assms by (simp add: map_String_those)
  ultimately show ?thesis by (rule safeEnsureArray_ok)
qed

lemma safeEnsureArray_strings: "safeEnsureArray P (JArr (map JStr xs)) l = Inr xs"
  by (rule safeEnsureArray_array) (simp add: comp_def)

lemma safeEnsureArray_string:
  "safeEnsureArray P (JStr s) l =
     (if looksLikeJsonArray s then parseBracketed P s else Inr [s])"
proof -
  have "safeEnsureArray_try P (JStr s) l = safeEnsureArray_branches P (JStr s)"
    by (rule try_ok [of _ _ s]) simp
  then show ?thesis
    using parseBracketed_total [of P s] by (auto simp: safeEnsureArray_def)
qed



text \<open>
  Claim C9. The base cases of \<^verbatim>\<open>safeEnsureArray\<close>: \<^verbatim>\<open>null\<close> and
  \<^verbatim>\<open>undefined\<close> give the empty list; an array gives the string forms of its elements,
  in their order and with their repetitions (an array of strings is returned as it is); a
  string that does not look like a JSON array, a number, a boolean and an object that is not
  an array give the one-element list of their string form.
\<close>
theorem safeEnsureArray_base_cases:
  "safeEnsureArray P JNull l = Inr [] \<and>
   safeEnsureArray P JUndefined l = Inr [] \<and>
   (map (ToString P) items = map Some ys \<longrightarrow> safeEnsureArray P (JArr items) l = Inr ys) \<and>
   safeEnsureArray P (JArr (map JStr xs)) l = Inr xs \<and>
   (\<not> looksLikeJsonArray s \<longrightarrow> safeEnsureArray P (JStr s) l = Inr [s]) \<and>
   safeEnsureArray P (JNum n) l = Inr [Number_toString P n] \<and>
   safeEnsureArray P (JBool b) l = Inr [if b then ''true'' else ''false''] \<and>
   safeEnsureArray P (JObj (Some t)) l = Inr [t]"
proof -
  have "safeEnsureArray P JNull l = Inr []"
    by (rule safeEnsureArray_ok [of _ _ "''null''"]) simp_all
  moreover have "safeEnsureArray P JUndefined l = Inr []"
    by (rule safeEnsureArray_ok [of _ _ "''undefined''"]) simp_all
  moreover have "safeEnsureArray P (JNum n) l = Inr [Number_toString P n]"
    by (rule safeEnsureArray_ok [of _ _ "Number_toString P n"]) simp_all
  moreover have "safeEnsureArray P (JBool b) l = Inr [if b then ''true'' else ''false'']"
    by (rule safeEnsureArray_ok [of _ _ "if b then ''true'' else ''false''"]) simp_all
  moreover have "safeEnsureArray P (JObj (Some t)) l = Inr [t]"
    by (rule safeEnsureArray_ok [of _ _ t]) simp_all
  ultimately show ?thesis
    by (simp add: safeEnsureArray_array safeEnsureArray_strings safeEnsureArray_string)
qed

lemma showInt_42: "showInt 42 = ''42''"
  by code_simp

lemma not_bracketed_plain: "\<not> looksLikeJsonArray ''plain''"
  by code_simp

theorem safeEnsureArray_base_cases_witness:
  "map (ToString demoPlatform) [JStr ''a'', JNum 42, JNull, JStr ''a'']
     = map Some [''a'', ''42'', ''null'', ''a''] \<and>
   safeEnsureArray demoPlatform (JArr [JStr ''a'', JNum 42, JNull, JStr ''a'']) ''categories''
     = Inr [''a'', ''42'', ''null'', ''a''] \<and>
   \<not> looksLikeJsonArray ''plain'' \<and>
   safeEnsureArray demoPlatform (JStr ''plain'') ''categories'' = Inr [''plain''] \<and>
   safeEnsureArray demoPlatform (JNum 42) ''categories'' = Inr [''42''] \<and>
   safeEnsureArray demoPlatform (JObj (Some ''[object Object]'')) ''categories''
     = Inr [''[object Object]'']"
proof -
  have strs: "map (ToString demoPlatform) [JStr ''a'', JNum 42, JNull, JStr ''a'']
     = map Some [''a'', ''42'', ''null'', ''a'']"
    by (simp add: demoPlatform_def showInt_42)
  show ?thesis
    using strs not_bracketed_plain
      safeEnsureArray_base_cases [of demoPlatform "''categories''"
        "[JStr ''a'', JNum 42, JNull, JStr ''a'']" "[''a'', ''42'', ''null'', ''a'']"
        "[]" "''plain''" 42 True "''[object Object]''"]
    by (simp add: demoPlatform_def showInt_42)
qed

lemma bracketed_xy: \<open>looksLikeJsonArray ''["x","y"]''\<close>
  by code_simp

lemma bracketed_invalid: "looksLikeJsonArray ''[not valid json]''"
  by code_simp

lemma bracketed_object: \<open>looksLikeJsonArray ''["a",{"toString":1}]''\<close>
  by code_simp

text \<open>
  Claim C2 as stated fails: a text can parse as a JSON array and still not be returned as
  the string forms of its elements, because an element need not have one. The text
  \<^verbatim>\<open>["a",{"toString":1}]\<close> parses as an array whose second element is an object on which
  \<^verbatim>\<open>String\<close> throws; the exception is thrown inside the \<^verbatim>\<open>try\<close> of line 95, whose
  \<^verbatim>\<open>catch\<close> (lines 109 to 114) returns the whole text as the only element.
\<close>
theorem bracketed_array_not_mapped:
  \<open>looksLikeJsonArray ''["a",{"toString":1}]'' \<and>
   JSON_parse demoPlatform ''["a",{"toString":1}]'' = Some (JArr [JStr ''a'', JObj None]) \<and>
   ToString demoPlatform (JObj None) = None \<and>
   map_String demoPlatform [JStr ''a'', JObj None]
     = Inl (TypeError ''Cannot convert object to primitive value'') \<and>
   safeEnsureArray demoPlatform (JStr ''["a",{"toString":1}]'') ''industries''
     = Inr [''["a",{"toString":1}]'']\<close>
proof -
  have parsed: \<open>JSON_parse demoPlatform ''["a",{"toString":1}]''
      = Some (JArr [JStr ''a'', JObj None])\<close>
    by (simp add: demoPlatform_def demoParse_def)
  have thrown: "map_String demoPlatform [JStr ''a'', JObj None]
      = Inl (TypeError ''Cannot convert object to primitive value'')"
    by (simp add: String_js_def)
  have \<open>safeEnsureArray demoPlatform (JStr ''["a",{"toString":1}]'') ''industries''
      = parseBracketed demoPlatform ''["a",{"toString":1}]''\<close>
    using bracketed_object by (simp add: safeEnsureArray_string)
  also have \<open>\<dots> = Inr [''["a",{"toString":1}]'']\<close>
    unfolding parseBracketed_def parsed by (simp add: thrown)
  finally show ?thesis
    using parsed thrown bracketed_object by simp
qed

text \<open>
  Claim C2, amended. For a string whose trimmed form starts with \<^verbatim>\<open>[\<close> and ends with
  \<^verbatim>\<open>]\<close>: when it parses to an array all of whose elements have a string form, the
  result is the list of these string forms; when it parses to something else, or does not
  parse, the result is the one-element list holding the whole string, brackets included.
  In every case a list is returned and nothing is raised.
\<close>
theorem safeEnsureArray_bracketed_string:
  assumes "looksLikeJsonArray s"
  shows "(JSON_parse P s = Some (JArr items) \<and> map (ToString P) items = map Some ys
            \<longrightarrow> safeEnsureArray P (JStr s) l = Inr ys) \<and>
         (JSON_parse P s = Some v \<and> (\<forall>items. v \<noteq> JArr items)
            \<longrightarrow> safeEnsureArray P (JStr s) l = Inr [s]) \<and>
         (JSON_parse P s = None \<longrightarrow> safeEnsureArray P (JStr s) l = Inr [s]) \<and>
         (\<exists>xs. safeEnsureArray P (JStr s) l = Inr xs)"
proof -
  have eq: "safeEnsureArray P (JStr s) l = parseBracketed P s"
    using assms by (simp add: safeEnsureArray_string)
  have "parseBracketed P s = Inr ys"
    if "JSON_parse P s = Some (JArr items)" "map (ToString P) items = map Some ys"
    using that by (simp add: parseBracketed_def map_String_those [symmetric])
  moreover have "parseBracketed P s = Inr [s]"
    if "JSON_parse P s = Some v" "\<forall>items. v \<noteq> JArr items"
    using that by (cases v) (simp_all add: parseBracketed_def)
  moreover have "parseBracketed P s = Inr [s]" if "JSON_parse P s = None"
    using that by (simp add: parseBracketed_def)
  moreover have "\<exists>xs. parseBracketed P s = Inr xs"
    by (rule parseBracketed_total)
  ultimately show ?thesis
    unfolding eq by blast
qed

theorem safeEnsureArray_bracketed_string_witness:
  \<open>looksLikeJsonArray ''["x","y"]'' \<and>
   JSON_parse demoPlatform ''["x","y"]'' = Some (JArr [JStr ''x'', JStr ''y'']) \<and>
   map (ToString demoPlatform) [JStr ''x'', JStr ''y''] = map Some [''x'', ''y''] \<and>
   safeEnsureArray demoPlatform (JStr ''["x","y"]'') ''industries'' = Inr [''x'', ''y''] \<and>
   looksLikeJsonArray ''[not valid json]'' \<and>
   JSON_parse demoPlatform ''[not valid json]'' = None \<and>
   safeEnsureArray demoPlatform (JStr ''[not valid json]'') ''industries''
     = Inr [''[not valid json]'']\<close>
proof -
  have parsed: \<open>JSON_parse demoPlatform ''["x","y"]'' = Some (JArr [JStr ''x'', JStr ''y''])\<close>
    by (simp add: demoPlatform_def demoParse_def)
  have failed: "JSON_parse demoPlatform ''[not valid json]'' = None"
    by (simp add: demoPlatform_def demoParse_def)
  have strs: "map (ToString demoPlatform) [JStr ''x'', JStr ''y''] = map Some [''x'', ''y'']"
    by simp
  show ?thesis
    using parsed failed strs bracketed_xy bracketed_invalid
      safeEnsureArray_bracketed_string [OF bracketed_xy, of demoPlatform
        "[JStr ''x'', JStr ''y'']" "[''x'', ''y'']" "''industries''" JNull]
      safeEnsureArray_bracketed_string [OF bracketed_invalid, of demoPlatform
        "[]" "[]" "''industries''" JNull]
    by simp
qed

section \<open>Properties of the persistence gateway\<close>

lemma ensureArray_ensured: "ensureArray P v = Inr (ensured P v)"
  by (simp add: ensureArray_def safeEnsureArray_ensured)

lemma tryEnsure_Inr [simp]: "tryEnsure (Inr xs) fallback = xs"
  by (simp add: tryEnsure_def)

lemma bindS_simps [simp]:
  "bindS (Inl e) s f = (Inl e, s)"
  "bindS (Inr x) s f = f x"
  by (simp_all add: bindS_def)

lemma ensured_eq: "safeEnsureArray P v l = Inr xs \<longleftrightarrow> ensured P v = xs"
  by (simp add: safeEnsureArray_ensured)

lemma ensured_array:
  "ensured P (JArr items) = (case map_String P items of Inr ys \<Rightarrow> ys | Inl e \<Rightarrow> [])"
proof (cases "map_String P items")
  case (Inr ys)
  then have "map (ToString P) items = map Some ys"
    by (simp add: map_String_those)
  then have "safeEnsureArray P (JArr items) [] = Inr ys"
    by (rule safeEnsureArray_array)
  with Inr show ?thesis by (simp add: ensured_def)
next
  case (Inl e)
  have "safeEnsureArray_try P (JArr items) [] = Inl e \<or>
        (\<exists>e'. safeEnsureArray_try P (JArr items) [] = Inl e')"
    using Inl by (cases "String_js P (JArr items)")
      (simp_all add: safeEnsureArray_try_def debugValue_def)
  then have "safeEnsureArray P (JArr items) [] = Inr []"
    by (auto simp: safeEnsureArray_def)
  with Inl show ?thesis by (simp add: ensured_def)
qed

lemma ensured_strings [simp]: "ensured P (JArr (map JStr xs)) = xs"
  using safeEnsureArray_strings [of P xs "[]"] by (simp add: ensured_def)

lemma ensured_nullish [simp]: "ensured P JNull = []" "ensured P JUndefined = []"
proof -
  have "safeEnsureArray P JNull [] = Inr []"
    by (rule safeEnsureArray_ok [of _ _ "''null''"]) simp_all
  then show "ensured P JNull = []" by (simp add: ensured_def)
  have "safeEnsureArray P JUndefined [] = Inr []"
    by (rule safeEnsureArray_ok [of _ _ "''undefined''"]) simp_all
  then show "ensured P JUndefined = []" by (simp add: ensured_def)
qed

lemma primary_simps [simp]: "primary [] = []" "primary (x # xs) = x"
  by (simp_all add: primary_def)

lemma primary_hd: "xs \<noteq> [] \<Longrightarrow> primary xs = xs ! 0"
  by (simp add: primary_def)

lemma orElse_simps [simp]: "orElse [] b = b" "orElse (c # cs) b = c # cs"
  by (simp_all add: orElse_def)

lemma orElse_self [simp]: "orElse a a = a" "orElse a [] = a"
  by (simp_all add: orElse_def)

lemma filter_Boolean_single [simp]:
  "filter_Boolean [s] = (if s = [] then [] else [s])"
  by (simp add: filter_Boolean_def)

lemma mapE_Inr: "(\<And>x. x \<in> set xs \<Longrightarrow> f x = Inr (g x)) \<Longrightarrow> mapE f xs = Inr (map g xs)"
  by (induction xs) simp_all


subsection \<open>Reading\<close>

lemma scalarsDerived_primary:
  "scalarsDerived u \<longleftrightarrow> industry u = primary (industries u) \<and> category u = primary (categories u)"
  by (auto simp: scalarsDerived_def primary_def)

lemma foundLocal_eq:
  "foundLocal P r =
     Inr \<lparr> id' = id' r, title = title r, description = description r, content = content r,
           industry = industry r, category = category r,
           industries = (if ensured P (industries r) \<noteq> [] then ensured P (industries r)
                         else filter_Boolean [industry r]),
           categories = (if ensured P (categories r) \<noteq> [] then ensured P (categories r)
                         else filter_Boolean [category r]),
           imageUrl = imageUrl r, status = status r,
           createdAt = createdAt r, updatedAt = updatedAt r \<rparr>"
  by (simp add: foundLocal_def safeEnsureArray_ensured)

lemma normalizeLocal_foundLocal: "normalizeLocal P r = foundLocal P r"
  by (simp add: foundLocal_eq normalizeLocal_def ensureArray_ensured)

lemma foundLocal_derived:
  assumes "storedAgreesOrEmpty P r"
  shows "\<exists>u. foundLocal P r = Inr u \<and> scalarsDerived u"
proof -
  from assms have i: "ensured P (industries r) \<noteq> [] \<Longrightarrow> industry r = ensured P (industries r) ! 0"
    and c: "ensured P (categories r) \<noteq> [] \<Longrightarrow> category r = ensured P (categories r) ! 0"
    by (auto simp: storedAgreesOrEmpty_def primary_hd)
  show ?thesis
    unfolding foundLocal_eq using i c by (simp add: scalarsDerived_def)
qed

lemma getUseCases_local:
  assumes "useLocalStorageFallback E"
  shows "getUseCases E s = mapE (foundLocal E) s"
proof -
  have "\<exists>us. mapE (foundLocal E) s = Inr us"
    by (induction s) (auto simp: foundLocal_eq)
  moreover have "normalizeLocal E = foundLocal E"
    by (rule ext) (rule normalizeLocal_foundLocal)
  ultimately show ?thesis
    using assms by (auto simp: getUseCases_def getUseCases_try_def)
qed

lemma mapE_all:
  assumes "list_all (\<lambda>x. \<exists>y. f x = Inr y \<and> Q y) xs"
  shows "\<exists>ys. mapE f xs = Inr ys \<and> list_all Q ys"
  using assms by (induction xs) auto

lemma getUseCases_local_derived:
  assumes "useLocalStorageFallback E" "list_all (storedAgreesOrEmpty E) s"
  shows "\<exists>us. getUseCases E s = Inr us \<and> list_all scalarsDerived us"
proof -
  have "list_all (\<lambda>r. \<exists>u. foundLocal E r = Inr u \<and> scalarsDerived u) s"
    using assms(2) by (induction s) (simp_all add: foundLocal_derived)
  then show ?thesis
    unfolding getUseCases_local [OF assms(1)] by (rule mapE_all)
qed

lemma getUseCaseById_local:
  assumes "useLocalStorageFallback E"
  shows "getUseCaseById E i s =
           (case find (\<lambda>r. id' r = i) s of
              None \<Rightarrow> Inr None
            | Some r \<Rightarrow> bindE (foundLocal E r) (\<lambda>u. Inr (Some u)))"
  using assms
  by (simp add: getUseCaseById_def getUseCaseById_try_def foundLocal_eq split: option.splits)

lemma getUseCaseById_local_derived:
  assumes "useLocalStorageFallback E" "find (\<lambda>r. id' r = i) s = Some r" "storedAgreesOrEmpty E r"
  shows "\<exists>u. getUseCaseById E i s = Inr (Some u) \<and> scalarsDerived u"
proof -
  from foundLocal_derived [OF assms(3)] obtain u where "foundLocal E r = Inr u" "scalarsDerived u"
    by blast
  then show ?thesis
    using assms(2) by (simp add: getUseCaseById_local [OF assms(1)])
qed





lemma getUseCases_remote:
  assumes "\<not> useLocalStorageFallback E" "select_all E = \<lparr> data = Some rows, error = None \<rparr>"
  shows "getUseCases E s = Inr (map (rowToUseCase E) rows)"
  using assms by (simp add: getUseCases_def getUseCases_try_def)



lemma getUseCaseById_remote:
  assumes "\<not> useLocalStorageFallback E"
    "select_eq_id_single E i = \<lparr> data = Some row, error = None \<rparr>"
  shows "getUseCaseById E i s = Inr (Some (foundRemote E row))"
  using assms by (simp add: getUseCaseById_def getUseCaseById_try_def)


subsection \<open>Creating\<close>

lemma createRemote_error: "createRemote E d ia ca img now = Inl e \<Longrightarrow> instanceofError e"
  by (auto simp: createRemote_def insertUseCase_def Let_def split: option.splits)


lemma agrees_derived:
  assumes "industry u = primary (industries u)" "category u = primary (categories u)"
  shows "scalarsDerived u"
  using assms by (simp add: scalarsDerived_def primary_def)

lemma createUseCase_title:
  "trim (UseCaseFormData.title d) = [] \<Longrightarrow>
     createUseCase E d s = (Inl (Error ''Title is required''), s)"
  by (simp add: createUseCase_def createUseCase_try_def)

lemma createUseCase_description:
  "trim (UseCaseFormData.title d) \<noteq> [] \<Longrightarrow> trim (UseCaseFormData.description d) = [] \<Longrightarrow>
     createUseCase E d s = (Inl (Error ''Description is required''), s)"
  by (simp add: createUseCase_def createUseCase_try_def)

lemma createUseCase_content:
  "trim (UseCaseFormData.title d) \<noteq> [] \<Longrightarrow> trim (UseCaseFormData.description d) \<noteq> [] \<Longrightarrow>
   trim (UseCaseFormData.content d) = [] \<Longrightarrow>
     createUseCase E d s = (Inl (Error ''Content is required''), s)"
  by (simp add: createUseCase_def createUseCase_try_def)

lemma createUseCase_industry:
  "trim (UseCaseFormData.title d) \<noteq> [] \<Longrightarrow> trim (UseCaseFormData.description d) \<noteq> [] \<Longrightarrow>
   trim (UseCaseFormData.content d) \<noteq> [] \<Longrightarrow> ensured E (UseCaseFormData.industries d) = [] \<Longrightarrow>
     createUseCase E d s = (Inl (Error ''At least one industry is required''), s)"
  by (simp add: createUseCase_def createUseCase_try_def safeEnsureArray_ensured)

lemma createUseCase_category:
  "trim (UseCaseFormData.title d) \<noteq> [] \<Longrightarrow> trim (UseCaseFormData.description d) \<noteq> [] \<Longrightarrow>
   trim (UseCaseFormData.content d) \<noteq> [] \<Longrightarrow> ensured E (UseCaseFormData.industries d) \<noteq> [] \<Longrightarrow>
   ensured E (UseCaseFormData.categories d) = [] \<Longrightarrow>
     createUseCase E d s = (Inl (Error ''At least one category is required''), s)"
  by (simp add: createUseCase_def createUseCase_try_def safeEnsureArray_ensured)

lemma createUseCase_valid:
  assumes "trim (UseCaseFormData.title d) \<noteq> []" "trim (UseCaseFormData.description d) \<noteq> []"
    "trim (UseCaseFormData.content d) \<noteq> []" "ensured E (UseCaseFormData.industries d) \<noteq> []"
    "ensured E (UseCaseFormData.categories d) \<noteq> []"
  shows "createUseCase_try E d s =
    (if useLocalStorageFallback E then
       (let newUseCase =
              \<lparr> id' = ''usecase_'' @ Number_toString E (Date_now E),
                title = UseCaseFormData.title d,
                description = UseCaseFormData.description d,
                content = UseCaseFormData.content d,
                industry = primary (ensured E (UseCaseFormData.industries d)),
                category = primary (ensured E (UseCaseFormData.categories d)),
                industries = ensured E (UseCaseFormData.industries d),
                categories = ensured E (UseCaseFormData.categories d),
                imageUrl = orElse (UseCaseFormData.imageUrl d) placeholderImageUrl,
                status = UseCaseFormData.status d,
                createdAt = Date_toISOString E,
                updatedAt = Date_toISOString E \<rparr>
        in (Inr newUseCase, s @ [toStored newUseCase]))
     else (createRemote E d (ensured E (UseCaseFormData.industries d))
             (ensured E (UseCaseFormData.categories d))
             (orElse (UseCaseFormData.imageUrl d) placeholderImageUrl) (Date_toISOString E), s))"
  using assms by (simp add: createUseCase_try_def safeEnsureArray_ensured Let_def)

lemma createUseCase_Inr_valid:
  assumes "createUseCase E d s = (Inr u, s')"
  shows "trim (UseCaseFormData.title d) \<noteq> [] \<and> trim (UseCaseFormData.description d) \<noteq> [] \<and>
    trim (UseCaseFormData.content d) \<noteq> [] \<and> ensured E (UseCaseFormData.industries d) \<noteq> [] \<and>
    ensured E (UseCaseFormData.categories d) \<noteq> []"
proof -
  have t: "trim (UseCaseFormData.title d) \<noteq> []"
    using assms createUseCase_title [of d E s] by auto
  have de: "trim (UseCaseFormData.description d) \<noteq> []"
    using assms t createUseCase_description [of d E s] by auto
  have c: "trim (UseCaseFormData.content d) \<noteq> []"
    using assms t de createUseCase_content [of d E s] by auto
  have i: "ensured E (UseCaseFormData.industries d) \<noteq> []"
    using assms t de c createUseCase_industry [of d E s] by auto
  have "ensured E (UseCaseFormData.categories d) \<noteq> []"
    using assms t de c i createUseCase_category [of d E s] by auto
  with t de c i show ?thesis by simp
qed

lemma createUseCase_local_valid:
  assumes "useLocalStorageFallback E"
    "trim (UseCaseFormData.title d) \<noteq> []" "trim (UseCaseFormData.description d) \<noteq> []"
    "trim (UseCaseFormData.content d) \<noteq> []" "ensured E (UseCaseFormData.industries d) \<noteq> []"
    "ensured E (UseCaseFormData.categories d) \<noteq> []"
  shows "\<exists>u. createUseCase E d s = (Inr u, s @ [toStored u]) \<and>
     id' u = ''usecase_'' @ Number_toString E (Date_now E) \<and>
     title u = UseCaseFormData.title d \<and>
     description u = UseCaseFormData.description d \<and>
     content u = UseCaseFormData.content d \<and>
     industries u = ensured E (UseCaseFormData.industries d) \<and>
     categories u = ensured E (UseCaseFormData.categories d) \<and>
     industry u = ensured E (UseCaseFormData.industries d) ! 0 \<and>
     category u = ensured E (UseCaseFormData.categories d) ! 0 \<and>
     imageUrl u = orElse (UseCaseFormData.imageUrl d) placeholderImageUrl \<and>
     status u = UseCaseFormData.status d \<and>
     createdAt u = Date_toISOString E \<and> updatedAt u = Date_toISOString E"
  using assms
  by (simp add: createUseCase_def createUseCase_valid Let_def primary_hd)

lemma createUseCase_local_derived:
  assumes "useLocalStorageFallback E" "createUseCase E d s = (Inr u, s')"
  shows "scalarsDerived u"
proof -
  note v = createUseCase_Inr_valid [OF assms(2)]
  from createUseCase_local_valid [of E d s] assms(1) v
  obtain u' where "createUseCase E d s = (Inr u', s @ [toStored u'])"
    "industries u' = ensured E (UseCaseFormData.industries d)"
    "categories u' = ensured E (UseCaseFormData.categories d)"
    "industry u' = ensured E (UseCaseFormData.industries d) ! 0"
    "category u' = ensured E (UseCaseFormData.categories d) ! 0"
    by blast
  with assms(2) v show ?thesis by (simp add: scalarsDerived_def)
qed


subsection \<open>Updating\<close>

lemma findIndex_None: "findIndex p xs = None \<longleftrightarrow> (\<forall>x \<in> set xs. \<not> p x)"
  by (induction xs) auto

lemma findIndex_Some:
  "findIndex p xs = Some k \<Longrightarrow> k < length xs \<and> p (xs ! k) \<and> find p xs = Some (xs ! k)"
proof (induction xs arbitrary: k)
  case Nil
  then show ?case by simp
next
  case (Cons x xs)
  show ?case
  proof (cases "p x")
    case True
    with Cons.prems show ?thesis by simp
  next
    case False
    with Cons.prems obtain j where j: "findIndex p xs = Some j" "k = Suc j"
      by auto
    from Cons.IH [OF j(1)] j(2) False show ?thesis by simp
  qed
qed

lemma orElseValue_array [simp]: "orElseValue P (JArr xs) b = JArr xs"
  by (simp add: orElseValue_def)

lemma updateLocal_eq:
  "updateLocal E d s k now =
     (let ia = (if isUndefined (PartialUseCaseFormData.industries d)
                then ensured E (orElseValue E (industries (s ! k)) (JArr []))
                else ensured E (PartialUseCaseFormData.industries d));
          ca = (if isUndefined (PartialUseCaseFormData.categories d)
                then ensured E (orElseValue E (categories (s ! k)) (JArr []))
                else ensured E (PartialUseCaseFormData.categories d));
          u = \<lparr> id' = id' (s ! k),
                title = (case PartialUseCaseFormData.title d of
                           Some t \<Rightarrow> t | None \<Rightarrow> title (s ! k)),
                description = (case PartialUseCaseFormData.description d of
                                 Some t \<Rightarrow> t | None \<Rightarrow> description (s ! k)),
                content = (case PartialUseCaseFormData.content d of
                             Some t \<Rightarrow> t | None \<Rightarrow> content (s ! k)),
                industry = primary ia,
                category = primary ca,
                industries = ia,
                categories = ca,
                imageUrl = (case PartialUseCaseFormData.imageUrl d of
                              Some t \<Rightarrow> t | None \<Rightarrow> imageUrl (s ! k)),
                status = (case PartialUseCaseFormData.status d of
                            Some t \<Rightarrow> t | None \<Rightarrow> status (s ! k)),
                createdAt = createdAt (s ! k),
                updatedAt = now \<rparr>
      in (Inr u, s[k := toStored u]))"
  by (simp add: updateLocal_def safeEnsureArray_ensured Let_def)

lemma updateUseCase_local_found:
  assumes "useLocalStorageFallback E" "findIndex (\<lambda>r. id' r = i) s = Some k"
  shows "updateUseCase E i d s = updateLocal E d s k (Date_toISOString E)"
  using assms by (simp add: updateUseCase_def updateUseCase_try_def updateLocal_eq Let_def)

lemma updateUseCase_local_missing:
  assumes "useLocalStorageFallback E" "findIndex (\<lambda>r. id' r = i) s = None"
  shows "updateUseCase E i d s = (Inl (Error (''Use case with ID '' @ i @ '' not found'')), s)"
  using assms by (simp add: updateUseCase_def updateUseCase_try_def)

lemma updateUseCase_local_derived:
  assumes "useLocalStorageFallback E" "updateUseCase E i d s = (Inr u, s')"
  shows "scalarsDerived u"
proof (cases "findIndex (\<lambda>r. id' r = i) s")
  case None
  with assms show ?thesis by (simp add: updateUseCase_local_missing)
next
  case (Some k)
  with assms have "updateLocal E d s k (Date_toISOString E) = (Inr u, s')"
    by (simp add: updateUseCase_local_found)
  then have "industry u = primary (industries u)" "category u = primary (categories u)"
    by (auto simp: updateLocal_eq Let_def)
  then show ?thesis by (rule agrees_derived)
qed


lemma sendUpdate_error: "sendUpdate E i ud now = Inl e \<Longrightarrow> instanceofError e"
  by (auto simp: sendUpdate_def Let_def split: option.splits)



subsection \<open>Deleting\<close>

lemma filter_length_eq: "length (filter p xs) = length xs \<longleftrightarrow> (\<forall>x \<in> set xs. p x)"
  by (metis filter_id_conv length_filter_less less_irrefl_nat)

lemma deleteUseCase_local_missing:
  assumes "useLocalStorageFallback E" "\<forall>r \<in> set s. id' r \<noteq> i"
  shows "deleteUseCase E i s = (Inl (Error (''Failed to delete use case with ID '' @ i)), s)"
proof -
  have "length s = length (filter (\<lambda>r. id' r \<noteq> i) s)"
    using assms(2) by (simp add: filter_length_eq)
  then show ?thesis
    using assms(1) by (simp add: deleteUseCase_def deleteUseCase_try_def Let_def)
qed

lemma deleteUseCase_local_found:
  assumes "useLocalStorageFallback E" "\<exists>r \<in> set s. id' r = i"
  shows "deleteUseCase E i s = (Inr (), filter (\<lambda>r. id' r \<noteq> i) s)"
proof -
  have "length s \<noteq> length (filter (\<lambda>r. id' r \<noteq> i) s)"
    using assms(2) filter_length_eq [of "\<lambda>r. id' r \<noteq> i" s] by auto
  then show ?thesis
    using assms(1) by (simp add: deleteUseCase_def deleteUseCase_try_def Let_def)
qed

lemma deleteUseCase_remote_failed:
  assumes "\<not> useLocalStorageFallback E" "delete_eq_id E i = Some m"
  shows "deleteUseCase E i s = (Inl (Error (''Failed to delete use case with ID '' @ i)), s)"
  using assms by (simp add: deleteUseCase_def deleteUseCase_try_def)

lemma getUseCaseById_local_absent:
  assumes "useLocalStorageFallback E" "\<forall>r \<in> set s. id' r \<noteq> i"
  shows "getUseCaseById E i s = Inr None"
proof -
  have "find (\<lambda>r. id' r = i) s = None"
    using assms(2) by (simp add: find_None_iff)
  then show ?thesis by (simp add: getUseCaseById_local [OF assms(1)])
qed

lemma delete_then_getById_local:
  assumes "useLocalStorageFallback E" "deleteUseCase E i s = (Inr (), s')"
  shows "getUseCaseById E i s' = Inr None"
proof -
  have "\<exists>r \<in> set s. id' r = i"
    using assms deleteUseCase_local_missing [of E s i] by auto
  with assms have "s' = filter (\<lambda>r. id' r \<noteq> i) s"
    by (simp add: deleteUseCase_local_found)
  then show ?thesis
    using assms(1) by (intro getUseCaseById_local_absent) simp_all
qed

lemma getUseCaseById_remote_error:
  assumes "\<not> useLocalStorageFallback E" "error (select_eq_id_single E i) = Some m"
  shows "getUseCaseById E i s = Inl (Error (''Failed to fetch use case with ID '' @ i))"
  using assms by (simp add: getUseCaseById_def getUseCaseById_try_def)

lemma getUseCaseById_remote_null:
  assumes "\<not> useLocalStorageFallback E"
    "select_eq_id_single E i = \<lparr> data = None, error = None \<rparr>"
  shows "getUseCaseById E i s = Inr None"
  using assms by (simp add: getUseCaseById_def getUseCaseById_try_def)

subsection \<open>Records written by the gateway\<close>

text \<open>
  A local store that holds only records written by the gateway keeps doing so under the
  three writing operations, and each of its records agrees with itself: its lists are
  arrays of strings and its scalars their first elements.
\<close>

lemma writtenByGateway_lists:
  assumes "writtenByGateway r"
  shows "\<exists>is cs. industries r = JArr (map JStr is) \<and> categories r = JArr (map JStr cs) \<and>
           industry r = primary is \<and> category r = primary cs"
proof -
  from assms obtain u where u: "scalarsDerived u" "r = toStored u"
    by (auto simp: writtenByGateway_def)
  then have "industries r = JArr (map JStr (industries u)) \<and>
      categories r = JArr (map JStr (categories u)) \<and>
      industry r = primary (industries u) \<and> category r = primary (categories u)"
    by (simp add: toStored_def scalarsDerived_primary)
  then show ?thesis by blast
qed

lemma writtenByGateway_agrees:
  assumes "writtenByGateway r"
  shows "storedAgreesOrEmpty P r"
proof -
  from writtenByGateway_lists [OF assms] obtain "is" cs where
    "industries r = JArr (map JStr is)" "categories r = JArr (map JStr cs)"
    "industry r = primary is" "category r = primary cs"
    by blast
  then show ?thesis by (simp add: storedAgreesOrEmpty_def)
qed

lemma local_create_written:
  assumes "useLocalStorageFallback E" "list_all writtenByGateway s"
    "createUseCase E d s = (result, s')"
  shows "list_all writtenByGateway s'"
proof (cases result)
  case (Inl e)
  have "s' = s"
  proof (cases "createUseCase_try E d s")
    case (Pair a b)
    with assms(1,3) Inl show ?thesis
      by (cases "trim (UseCaseFormData.title d) = []";
          cases "trim (UseCaseFormData.description d) = []";
          cases "trim (UseCaseFormData.content d) = []";
          cases "ensured E (UseCaseFormData.industries d) = []";
          cases "ensured E (UseCaseFormData.categories d) = []")
         (auto simp: createUseCase_def createUseCase_try_def safeEnsureArray_ensured Let_def
            split: sum.splits)
  qed
  with assms(2) show ?thesis by simp
next
  case (Inr u)
  with assms have c: "createUseCase E d s = (Inr u, s')" by simp
  from createUseCase_Inr_valid [OF c] createUseCase_local_valid [of E d s] assms(1) c
  have "s' = s @ [toStored u]" by auto
  moreover have "scalarsDerived u"
    using assms(1) c by (rule createUseCase_local_derived)
  ultimately show ?thesis
    using assms(2) by (auto simp: writtenByGateway_def)
qed

lemma local_update_written:
  assumes "useLocalStorageFallback E" "list_all writtenByGateway s"
    "updateUseCase E i p s = (result, s')"
  shows "list_all writtenByGateway s'"
proof (cases "findIndex (\<lambda>r. id' r = i) s")
  case None
  with assms show ?thesis by (simp add: updateUseCase_local_missing)
next
  case (Some k)
  from assms(1,3) Some obtain u where u: "result = Inr u" "s' = s[k := toStored u]"
    by (auto simp: updateUseCase_local_found updateLocal_eq Let_def)
  with assms(1,3) have "scalarsDerived u"
    by (intro updateUseCase_local_derived [of E i p s u s']) simp_all
  then have "writtenByGateway (toStored u :: 'a StoredUseCase)"
    by (auto simp: writtenByGateway_def)
  with assms(2) u(2) show ?thesis
    by (auto simp: list_all_iff dest!: set_update_subset_insert [THEN subsetD])
qed

lemma local_delete_written:
  assumes "list_all writtenByGateway s" "deleteUseCase E i s = (result, s')"
  shows "list_all writtenByGateway s'"
  using assms
  by (auto simp: deleteUseCase_def deleteUseCase_try_def Let_def list_all_iff
      split: if_splits option.splits)

section \<open>The claims about the gateway\<close>

text \<open>
  Claim C5. \<^verbatim>\<open>createUseCase\<close> rejects with an error whose message names the field, on
  either backend, whatever the remote store would answer, and leaves the local store as it
  was, when the title, the description or the content is empty after trimming, and when
  the industries or the categories normalize to the empty list. The checks run in this
  order and the first that fails gives the message.
\<close>
theorem createUseCase_validation:
  "(trim (UseCaseFormData.title d) = [] \<longrightarrow>
      createUseCase E d s = (Inl (Error ''Title is required''), s)) \<and>
   (trim (UseCaseFormData.title d) \<noteq> [] \<and> trim (UseCaseFormData.description d) = [] \<longrightarrow>
      createUseCase E d s = (Inl (Error ''Description is required''), s)) \<and>
   (trim (UseCaseFormData.title d) \<noteq> [] \<and> trim (UseCaseFormData.description d) \<noteq> [] \<and>
    trim (UseCaseFormData.content d) = [] \<longrightarrow>
      createUseCase E d s = (Inl (Error ''Content is required''), s)) \<and>
   (trim (UseCaseFormData.title d) \<noteq> [] \<and> trim (UseCaseFormData.description d) \<noteq> [] \<and>
    trim (UseCaseFormData.content d) \<noteq> [] \<and>
    safeEnsureArray E (UseCaseFormData.industries d) ''create_industries'' = Inr [] \<longrightarrow>
      createUseCase E d s = (Inl (Error ''At least one industry is required''), s)) \<and>
   (trim (UseCaseFormData.title d) \<noteq> [] \<and> trim (UseCaseFormData.description d) \<noteq> [] \<and>
    trim (UseCaseFormData.content d) \<noteq> [] \<and>
    safeEnsureArray E (UseCaseFormData.industries d) ''create_industries'' \<noteq> Inr [] \<and>
    safeEnsureArray E (UseCaseFormData.categories d) ''create_categories'' = Inr [] \<longrightarrow>
      createUseCase E d s = (Inl (Error ''At least one category is required''), s))"
  by (simp add: createUseCase_title createUseCase_description createUseCase_content
      createUseCase_industry createUseCase_category ensured_eq)

lemma blank_title: "trim ''  '' = []"
  by code_simp

lemma financeForm_texts:
  "trim (UseCaseFormData.title financeForm) \<noteq> []"
  "trim (UseCaseFormData.description financeForm) \<noteq> []"
  "trim (UseCaseFormData.content financeForm) \<noteq> []"
  by code_simp+

theorem createUseCase_validation_witness:
  "trim (UseCaseFormData.title (financeForm\<lparr>UseCaseFormData.title := ''  ''\<rparr>)) = [] \<and>
   createUseCase offlineEnv (financeForm\<lparr>UseCaseFormData.title := ''  ''\<rparr>) [oldUseCase]
     = (Inl (Error ''Title is required''), [oldUseCase]) \<and>
   safeEnsureArray offlineEnv
     (UseCaseFormData.industries (financeForm\<lparr>UseCaseFormData.industries := JArr []\<rparr>))
     ''create_industries'' = Inr [] \<and>
   createUseCase offlineEnv (financeForm\<lparr>UseCaseFormData.industries := JArr []\<rparr>) [oldUseCase]
     = (Inl (Error ''At least one industry is required''), [oldUseCase]) \<and>
   createUseCase (demoEnv True []) (financeForm\<lparr>UseCaseFormData.industries := JArr []\<rparr>)
     [oldUseCase]
     = (Inl (Error ''At least one industry is required''), [oldUseCase])"
proof -
  have none: "safeEnsureArray E (JArr []) ''create_industries'' = Inr []" for E :: "int env"
    by (simp add: ensured_eq ensured_array)
  show ?thesis
    using blank_title financeForm_texts none
      createUseCase_validation [of "financeForm\<lparr>UseCaseFormData.title := ''  ''\<rparr>"
        offlineEnv "[oldUseCase]"]
      createUseCase_validation [of "financeForm\<lparr>UseCaseFormData.industries := JArr []\<rparr>"
        offlineEnv "[oldUseCase]"]
      createUseCase_validation [of "financeForm\<lparr>UseCaseFormData.industries := JArr []\<rparr>"
        "demoEnv True []" "[oldUseCase]"]
    by simp
qed

text \<open>
  Claim C8. On the local backend, a form that passes validation and supplies arrays of
  strings is stored and returned as an entity whose list fields are the supplied lists and
  whose scalar fields are their first elements; \<^verbatim>\<open>createdAt\<close> and
  \<^verbatim>\<open>updatedAt\<close> are both the time of the call, and an empty \<^verbatim>\<open>imageUrl\<close> becomes the
  placeholder. The entity is appended to the store.
\<close>
theorem createUseCase_local_entity:
  assumes "useLocalStorageFallback E"
    and "trim (UseCaseFormData.title d) \<noteq> []"
    and "trim (UseCaseFormData.description d) \<noteq> []"
    and "trim (UseCaseFormData.content d) \<noteq> []"
    and "UseCaseFormData.industries d = JArr (map JStr is)" and "is \<noteq> []"
    and "UseCaseFormData.categories d = JArr (map JStr cs)" and "cs \<noteq> []"
  shows "\<exists>u. createUseCase E d s = (Inr u, s @ [toStored u]) \<and>
     industries u = is \<and> industry u = is ! 0 \<and>
     categories u = cs \<and> category u = cs ! 0 \<and>
     createdAt u = Date_toISOString E \<and> updatedAt u = Date_toISOString E \<and>
     imageUrl u = (if UseCaseFormData.imageUrl d = [] then placeholderImageUrl
                   else UseCaseFormData.imageUrl d) \<and>
     title u = UseCaseFormData.title d \<and> description u = UseCaseFormData.description d \<and>
     content u = UseCaseFormData.content d \<and> status u = UseCaseFormData.status d \<and>
     id' u = ''usecase_'' @ Number_toString E (Date_now E)"
  using createUseCase_local_valid [of E d s] assms
  by (auto simp: orElse_def)


lemma single_one [simp]:
  "single \<lparr> data = Some [row], error = None \<rparr> = \<lparr> data = Some row, error = None \<rparr>"
  by (simp add: single_def)

lemma single_none [simp]:
  "single \<lparr> data = Some [], error = None \<rparr>
     = \<lparr> data = None, error = Some ''JSON object requested, multiple (or no) rows returned'' \<rparr>"
  by (simp add: single_def)

lemma demoEnv_simps [simp]:
  "useLocalStorageFallback (demoEnv local table) = local"
  "Date_toISOString (demoEnv local table) = ''2023-11-14T22:13:20.000Z''"
  "select_all (demoEnv local table) = \<lparr> data = Some table, error = None \<rparr>"
  "select_eq_id_single (demoEnv local table) i
     = single \<lparr> data = Some (filter (\<lambda>r. UseCaseRow.id' r = i) table), error = None \<rparr>"
  "insert_select_single (demoEnv local table) db
     = single \<lparr> data = Some [insertedRow db], error = None \<rparr>"
  "update_eq_id_select_single (demoEnv local table) i ud
     = single \<lparr> data = Some (map (updatedRow ud) (filter (\<lambda>r. UseCaseRow.id' r = i) table)),
                error = None \<rparr>"
  by (simp_all add: demoEnv_def)

theorem createUseCase_local_entity_witness:
  "useLocalStorageFallback (demoEnv True []) \<and>
   UseCaseFormData.industries financeForm = JArr (map JStr [''Finance'', ''Retail'']) \<and>
   UseCaseFormData.categories financeForm = JArr (map JStr [''Machine Learning'']) \<and>
   UseCaseFormData.imageUrl financeForm = [] \<and>
   industries (projr (fst (createUseCase (demoEnv True []) financeForm [oldUseCase])))
     = [''Finance'', ''Retail''] \<and>
   industry (projr (fst (createUseCase (demoEnv True []) financeForm [oldUseCase])))
     = ''Finance'' \<and>
   category (projr (fst (createUseCase (demoEnv True []) financeForm [oldUseCase])))
     = ''Machine Learning'' \<and>
   imageUrl (projr (fst (createUseCase (demoEnv True []) financeForm [oldUseCase])))
     = placeholderImageUrl \<and>
   createdAt (projr (fst (createUseCase (demoEnv True []) financeForm [oldUseCase])))
     = ''2023-11-14T22:13:20.000Z'' \<and>
   updatedAt (projr (fst (createUseCase (demoEnv True []) financeForm [oldUseCase])))
     = ''2023-11-14T22:13:20.000Z'' \<and>
   snd (createUseCase (demoEnv True []) financeForm [oldUseCase])
     = [oldUseCase,
        toStored (projr (fst (createUseCase (demoEnv True []) financeForm [oldUseCase])))] \<and>
   industry (last (snd (createUseCase (demoEnv True []) financeForm [oldUseCase])))
     = ''Finance'' \<and>
   industries (last (snd (createUseCase (demoEnv True []) financeForm [oldUseCase])))
     = JArr [JStr ''Finance'', JStr ''Retail'']"
proof -
  have form: "UseCaseFormData.industries financeForm = JArr (map JStr [''Finance'', ''Retail''])"
    "UseCaseFormData.categories financeForm = JArr (map JStr [''Machine Learning''])"
    "UseCaseFormData.imageUrl financeForm = []"
    by (simp_all add: financeForm_def)
  from createUseCase_local_entity [of "demoEnv True []" financeForm
      "[''Finance'', ''Retail'']" "[''Machine Learning'']" "[oldUseCase]",
      OF _ financeForm_texts form(1) _ form(2)]
  obtain u where u: "createUseCase (demoEnv True []) financeForm [oldUseCase]
        = (Inr u, [oldUseCase] @ [toStored u])"
    "industries u = [''Finance'', ''Retail'']" "industry u = [''Finance'', ''Retail''] ! 0"
    "category u = [''Machine Learning''] ! 0"
    "createdAt u = Date_toISOString (demoEnv True [])"
    "updatedAt u = Date_toISOString (demoEnv True [])"
    "imageUrl u = (if UseCaseFormData.imageUrl financeForm = [] then placeholderImageUrl
                   else UseCaseFormData.imageUrl financeForm)"
    by auto
  show ?thesis
    using form by (simp add: u toStored_def)
qed

text \<open>
  Claim C10. Strings are returned as they are, untrimmed: a string of white space, alone
  or as the only element of an array, normalizes to the list holding it. A form whose
  industries are such an array therefore passes validation: on the local backend the
  entity stored and returned has the white space as its \<^verbatim>\<open>industry\<close>, and on the remote
  backend the row sent to the store has.
\<close>
theorem whitespace_is_kept:
  assumes "trim (UseCaseFormData.title d) \<noteq> []"
    and "trim (UseCaseFormData.description d) \<noteq> []"
    and "trim (UseCaseFormData.content d) \<noteq> []"
    and "UseCaseFormData.industries d = JArr [JStr w]"
    and "safeEnsureArray E (UseCaseFormData.categories d) ''create_categories'' \<noteq> Inr []"
  shows "safeEnsureArray E (JArr [JStr w]) l = Inr [w] \<and>
     (trim w = [] \<longrightarrow> safeEnsureArray E (JStr w) l = Inr [w]) \<and>
     (useLocalStorageFallback E \<longrightarrow>
        (\<exists>u. createUseCase E d s = (Inr u, s @ [toStored u]) \<and>
             industries u = [w] \<and> industry u = w)) \<and>
     (\<not> useLocalStorageFallback E \<longrightarrow>
        (\<exists>dbData. createUseCase_try E d s = (insertUseCase E dbData, s) \<and>
             DbData.industries dbData = [w] \<and> DbData.industry dbData = w))"
proof -
  have arr: "safeEnsureArray E (JArr [JStr w]) l = Inr [w]"
    using safeEnsureArray_strings [of E "[w]" l] by simp
  have str: "safeEnsureArray E (JStr w) l = Inr [w]" if "trim w = []"
    using that by (simp add: safeEnsureArray_string looksLikeJsonArray_def startsWith_def)
  have i: "ensured E (UseCaseFormData.industries d) = [w]"
    using arr assms(4) by (simp add: ensured_eq)
  have c: "ensured E (UseCaseFormData.categories d) \<noteq> []"
    using assms(5) by (simp add: ensured_eq)
  have loc: "\<exists>u. createUseCase E d s = (Inr u, s @ [toStored u]) \<and>
          industries u = [w] \<and> industry u = w" if "useLocalStorageFallback E"
    using createUseCase_local_valid [of E d s] that assms(1-3) i c by auto
  have rem: "\<exists>dbData. createUseCase_try E d s = (insertUseCase E dbData, s) \<and>
             DbData.industries dbData = [w] \<and> DbData.industry dbData = w"
    if "\<not> useLocalStorageFallback E"
  proof -
    let ?db = "dbDataOf d [w] (ensured E (UseCaseFormData.categories d))
        (orElse (UseCaseFormData.imageUrl d) placeholderImageUrl) (Date_toISOString E)"
    have "createUseCase_try E d s = (insertUseCase E ?db, s)"
      using that assms(1-3) i c by (simp add: createUseCase_valid createRemote_def)
    moreover have "DbData.industries ?db = [w]" "DbData.industry ?db = w"
      by (simp_all add: dbDataOf_def)
    ultimately show ?thesis by blast
  qed
  from arr str loc rem show ?thesis by blast
qed

lemma blank_industry: "trim ''   '' = []"
  by code_simp

theorem whitespace_is_kept_witness:
  "trim ''   '' = [] \<and>
   safeEnsureArray (demoEnv True []) (JStr ''   '') ''create_industries'' = Inr [''   ''] \<and>
   safeEnsureArray (demoEnv True []) (JArr [JStr ''   '']) ''create_industries'' = Inr [''   ''] \<and>
   industries (projr (fst (createUseCase (demoEnv True [])
       (financeForm\<lparr>UseCaseFormData.industries := JArr [JStr ''   '']\<rparr>) []))) = [''   ''] \<and>
   industry (projr (fst (createUseCase (demoEnv True [])
       (financeForm\<lparr>UseCaseFormData.industries := JArr [JStr ''   '']\<rparr>) []))) = ''   '' \<and>
   industry (last (snd (createUseCase (demoEnv True [])
       (financeForm\<lparr>UseCaseFormData.industries := JArr [JStr ''   '']\<rparr>) []))) = ''   '' \<and>
   industry (projr (fst (createUseCase (demoEnv False [])
       (financeForm\<lparr>UseCaseFormData.industries := JArr [JStr ''   '']\<rparr>) []))) = ''   ''"
proof -
  let ?d = "financeForm\<lparr>UseCaseFormData.industries := JArr [JStr ''   '']\<rparr>"
  have cats: "safeEnsureArray E (UseCaseFormData.categories ?d) ''create_categories'' \<noteq> Inr []"
    for E :: "int env"
    by (simp add: financeForm_def ensured_eq ensured_array)
  have texts: "trim (UseCaseFormData.title ?d) \<noteq> []"
    "trim (UseCaseFormData.description ?d) \<noteq> []" "trim (UseCaseFormData.content ?d) \<noteq> []"
    using financeForm_texts by simp_all
  from whitespace_is_kept [of ?d "''   ''" "demoEnv True []" "''create_industries''" "[]",
      OF texts _ cats] blank_industry
  obtain u where u: "safeEnsureArray (demoEnv True []) (JArr [JStr ''   '']) ''create_industries''
        = Inr [''   '']"
    "safeEnsureArray (demoEnv True []) (JStr ''   '') ''create_industries'' = Inr [''   '']"
    "createUseCase (demoEnv True []) ?d [] = (Inr u, [] @ [toStored u])"
    "industries u = [''   '']" "industry u = ''   ''"
    by auto
  from whitespace_is_kept [of ?d "''   ''" "demoEnv False []" "''create_industries''" "[]",
      OF texts _ cats]
  obtain dbData where db: "createUseCase_try (demoEnv False []) ?d [] =
      (insertUseCase (demoEnv False []) dbData, [])"
    "DbData.industries dbData = [''   '']" "DbData.industry dbData = ''   ''"
    by auto
  have "industry (projr (fst (createUseCase (demoEnv False []) ?d []))) = ''   ''"
    using db by (simp add: createUseCase_def insertUseCase_def insertedRow_def Let_def)
  with u show ?thesis
    using blank_industry by (simp add: toStored_def)
qed

text \<open>
  What the local branch of \<^verbatim>\<open>updateUseCase\<close> returns and writes back for a record that
  exists: every text field given in the partial input has its new value and every text
  field left out keeps the value of the stored record; a list field that is given is
  replaced by its normalized form, and one left out is the normalized form of
  \<^verbatim>\<open>useCase.industries || []\<close>; both scalars are the first elements of the resulting
  lists, so a scalar left out is kept only when it is the first element of the stored list;
  \<^verbatim>\<open>updatedAt\<close> is the time of the call whatever was given.
\<close>
lemma updateUseCase_local_frame:
  assumes "useLocalStorageFallback E"
    and "findIndex (\<lambda>useCase. id' useCase = i) s = Some k"
  shows "\<exists>u. updateUseCase E i d s = (Inr u, s[k := toStored u]) \<and>
     id' u = id' (s ! k) \<and> createdAt u = createdAt (s ! k) \<and>
     updatedAt u = Date_toISOString E \<and>
     title u = (case PartialUseCaseFormData.title d of
                  Some t \<Rightarrow> t | None \<Rightarrow> title (s ! k)) \<and>
     description u = (case PartialUseCaseFormData.description d of
                        Some t \<Rightarrow> t | None \<Rightarrow> description (s ! k)) \<and>
     content u = (case PartialUseCaseFormData.content d of
                    Some t \<Rightarrow> t | None \<Rightarrow> content (s ! k)) \<and>
     imageUrl u = (case PartialUseCaseFormData.imageUrl d of
                     Some t \<Rightarrow> t | None \<Rightarrow> imageUrl (s ! k)) \<and>
     status u = (case PartialUseCaseFormData.status d of
                   Some t \<Rightarrow> t | None \<Rightarrow> status (s ! k)) \<and>
     (\<not> isUndefined (PartialUseCaseFormData.industries d) \<longrightarrow>
        safeEnsureArray E (PartialUseCaseFormData.industries d) ''new_industries''
          = Inr (industries u)) \<and>
     (\<not> isUndefined (PartialUseCaseFormData.categories d) \<longrightarrow>
        safeEnsureArray E (PartialUseCaseFormData.categories d) ''new_categories''
          = Inr (categories u)) \<and>
     (isUndefined (PartialUseCaseFormData.industries d) \<longrightarrow>
        industries u = ensured E (orElseValue E (industries (s ! k)) (JArr []))) \<and>
     (isUndefined (PartialUseCaseFormData.categories d) \<longrightarrow>
        categories u = ensured E (orElseValue E (categories (s ! k)) (JArr []))) \<and>
     (\<forall>xs. PartialUseCaseFormData.industries d = JArr (map JStr xs) \<longrightarrow> industries u = xs) \<and>
     (\<forall>xs. PartialUseCaseFormData.categories d = JArr (map JStr xs) \<longrightarrow> categories u = xs) \<and>
     (\<forall>xs. isUndefined (PartialUseCaseFormData.industries d) \<and>
           industries (s ! k) = JArr (map JStr xs) \<longrightarrow> industries u = xs) \<and>
     (\<forall>xs. isUndefined (PartialUseCaseFormData.categories d) \<and>
           categories (s ! k) = JArr (map JStr xs) \<longrightarrow> categories u = xs) \<and>
     (\<forall>xs. isUndefined (PartialUseCaseFormData.industries d) \<and>
           industries (s ! k) = JArr (map JStr xs) \<and> industry (s ! k) = primary xs
           \<longrightarrow> industry u = industry (s ! k)) \<and>
     (\<forall>xs. isUndefined (PartialUseCaseFormData.categories d) \<and>
           categories (s ! k) = JArr (map JStr xs) \<and> category (s ! k) = primary xs
           \<longrightarrow> category u = category (s ! k)) \<and>
     (industries u \<noteq> [] \<longrightarrow> industry u = industries u ! 0) \<and>
     (industries u = [] \<longrightarrow> industry u = []) \<and>
     (categories u \<noteq> [] \<longrightarrow> category u = categories u ! 0) \<and>
     (categories u = [] \<longrightarrow> category u = [])"
proof -
  show ?thesis
    unfolding updateUseCase_local_found [OF assms] updateLocal_eq Let_def
    by (auto simp: safeEnsureArray_ensured primary_hd)
qed

lemma oldUseCase_index:
  "findIndex (\<lambda>useCase. id' useCase = ''usecase_1690000000000'') [oldUseCase] = Some 0"
  by (simp add: oldUseCase_def)

lemma updateUseCase_local_frame_example:
  "findIndex (\<lambda>useCase. id' useCase = ''usecase_1690000000000'') [oldUseCase] = Some 0 \<and>
   PartialUseCaseFormData.title onlyCategories = None \<and>
   PartialUseCaseFormData.categories onlyCategories = JArr (map JStr [''NewCat'']) \<and>
   isUndefined (PartialUseCaseFormData.industries onlyCategories) \<and>
   categories oldUseCase = JArr (map JStr [''Old'']) \<and>
   industries oldUseCase = JArr (map JStr [''Telecom'']) \<and>
   categories (projr (fst (updateUseCase (demoEnv True []) ''usecase_1690000000000''
       onlyCategories [oldUseCase]))) = [''NewCat''] \<and>
   category (projr (fst (updateUseCase (demoEnv True []) ''usecase_1690000000000''
       onlyCategories [oldUseCase]))) = ''NewCat'' \<and>
   title (projr (fst (updateUseCase (demoEnv True []) ''usecase_1690000000000''
       onlyCategories [oldUseCase]))) = title oldUseCase \<and>
   industries (projr (fst (updateUseCase (demoEnv True []) ''usecase_1690000000000''
       onlyCategories [oldUseCase]))) = [''Telecom''] \<and>
   industry (projr (fst (updateUseCase (demoEnv True []) ''usecase_1690000000000''
       onlyCategories [oldUseCase]))) = industry oldUseCase \<and>
   updatedAt (projr (fst (updateUseCase (demoEnv True []) ''usecase_1690000000000''
       onlyCategories [oldUseCase]))) = ''2023-11-14T22:13:20.000Z'' \<and>
   snd (updateUseCase (demoEnv True []) ''usecase_1690000000000'' onlyCategories [oldUseCase])
     = [toStored (projr (fst (updateUseCase (demoEnv True []) ''usecase_1690000000000''
          onlyCategories [oldUseCase])))]"
proof -
  have given: "PartialUseCaseFormData.title onlyCategories = None"
    "PartialUseCaseFormData.categories onlyCategories = JArr (map JStr [''NewCat''])"
    "isUndefined (PartialUseCaseFormData.industries onlyCategories)"
    "categories oldUseCase = JArr (map JStr [''Old''])"
    "industries oldUseCase = JArr (map JStr [''Telecom''])"
    by (simp_all add: onlyCategories_def oldUseCase_def)
  from updateUseCase_local_frame [of "demoEnv True []" "''usecase_1690000000000''"
      "[oldUseCase]" 0 onlyCategories, OF _ oldUseCase_index]
  obtain u where u: "updateUseCase (demoEnv True []) ''usecase_1690000000000'' onlyCategories
        [oldUseCase] = (Inr u, [oldUseCase][0 := toStored u])"
    "updatedAt u = Date_toISOString (demoEnv True [])"
    "title u = (case PartialUseCaseFormData.title onlyCategories of
                  Some t \<Rightarrow> t | None \<Rightarrow> title ([oldUseCase] ! 0))"
    "\<forall>xs. PartialUseCaseFormData.categories onlyCategories = JArr (map JStr xs)
        \<longrightarrow> categories u = xs"
    "\<forall>xs. isUndefined (PartialUseCaseFormData.industries onlyCategories) \<and>
           industries ([oldUseCase] ! 0) = JArr (map JStr xs) \<longrightarrow> industries u = xs"
    "categories u \<noteq> [] \<longrightarrow> category u = categories u ! 0"
    "\<forall>xs. isUndefined (PartialUseCaseFormData.industries onlyCategories) \<and>
           industries ([oldUseCase] ! 0) = JArr (map JStr xs) \<and>
           industry ([oldUseCase] ! 0) = primary xs
           \<longrightarrow> industry u = industry ([oldUseCase] ! 0)"
    by auto
  from u(4) given(2) have c: "categories u = [''NewCat'']" by blast
  from u(5) given(3,5) have i: "industries u = [''Telecom'']" by simp
  have "industry oldUseCase = primary [''Telecom'']"
    by (simp add: oldUseCase_def)
  with u(7) given(3,5) have p: "industry u = industry oldUseCase"
    by (metis nth_Cons_0)
  show ?thesis
    using given oldUseCase_index u(1,2,3,6) c i p by simp
qed


text \<open>
  Claim C6 asks that a field left out of the partial input keeps its previous value. The
  local branch of \<^verbatim>\<open>updateUseCase\<close> does not do so for the two scalars: it takes them
  from \<^verbatim>\<open>useCase.industries || []\<close> and \<^verbatim>\<open>useCase.categories || []\<close> (lines 561 to
  594) also when the input gives neither list. For a record stored with the scalars only,
  the record for which the reading paths put the scalar into the list (lines 165 to 172
  and 260 to 272), an update of the title alone returns and stores an empty
  \<^verbatim>\<open>industry\<close> and \<^verbatim>\<open>category\<close>, and the record read back afterwards has lost them.
  The remote branch writes a scalar only when its list is given (lines 617 to 680).
\<close>
theorem updateUseCase_local_erases_omitted_scalars:
  "isUndefined (PartialUseCaseFormData.industries onlyTitle) \<and>
   isUndefined (PartialUseCaseFormData.categories onlyTitle) \<and>
   industry legacyUseCase = ''Retail'' \<and> category legacyUseCase = ''Forecasting'' \<and>
   getUseCaseById (demoEnv True []) ''usecase_1650000000000'' [legacyUseCase]
     = Inr (Some \<lparr> id' = ''usecase_1650000000000'', title = ''Demand forecast'',
                    description = ''Weekly demand per store'', content = ''# Demand'',
                    industry = ''Retail'', category = ''Forecasting'',
                    industries = [''Retail''], categories = [''Forecasting''],
                    imageUrl = ''https://example.com/demand.png'', status = ''published'',
                    createdAt = ''2022-04-15T05:20:00.000Z'',
                    updatedAt = ''2022-04-15T05:20:00.000Z'' \<rparr>) \<and>
   updateUseCase (demoEnv True []) ''usecase_1650000000000'' onlyTitle [legacyUseCase]
     = (Inr \<lparr> id' = ''usecase_1650000000000'', title = ''Demand forecasting'',
              description = ''Weekly demand per store'', content = ''# Demand'',
              industry = [], category = [],
              industries = [], categories = [],
              imageUrl = ''https://example.com/demand.png'', status = ''published'',
              createdAt = ''2022-04-15T05:20:00.000Z'',
              updatedAt = ''2023-11-14T22:13:20.000Z'' \<rparr>,
        [\<lparr> id' = ''usecase_1650000000000'', title = ''Demand forecasting'',
           description = ''Weekly demand per store'', content = ''# Demand'',
           industry = [], category = [],
           industries = JArr [], categories = JArr [],
           imageUrl = ''https://example.com/demand.png'', status = ''published'',
           createdAt = ''2022-04-15T05:20:00.000Z'',
           updatedAt = ''2023-11-14T22:13:20.000Z'' \<rparr>]) \<and>
   getUseCaseById (demoEnv True []) ''usecase_1650000000000''
       (snd (updateUseCase (demoEnv True []) ''usecase_1650000000000'' onlyTitle
          [legacyUseCase]))
     = Inr (Some \<lparr> id' = ''usecase_1650000000000'', title = ''Demand forecasting'',
                    description = ''Weekly demand per store'', content = ''# Demand'',
                    industry = [], category = [],
                    industries = [], categories = [],
                    imageUrl = ''https://example.com/demand.png'', status = ''published'',
                    createdAt = ''2022-04-15T05:20:00.000Z'',
                    updatedAt = ''2023-11-14T22:13:20.000Z'' \<rparr>)"
proof -
  have idx: "findIndex (\<lambda>useCase. id' useCase = ''usecase_1650000000000'') [legacyUseCase]
      = Some 0"
    by (simp add: legacyUseCase_def)
  have given: "isUndefined (PartialUseCaseFormData.industries onlyTitle)"
    "isUndefined (PartialUseCaseFormData.categories onlyTitle)"
    "industry legacyUseCase = ''Retail''" "category legacyUseCase = ''Forecasting''"
    by (simp_all add: onlyTitle_def legacyUseCase_def)
  have before: "getUseCaseById (demoEnv True []) ''usecase_1650000000000'' [legacyUseCase]
     = Inr (Some \<lparr> id' = ''usecase_1650000000000'', title = ''Demand forecast'',
                    description = ''Weekly demand per store'', content = ''# Demand'',
                    industry = ''Retail'', category = ''Forecasting'',
                    industries = [''Retail''], categories = [''Forecasting''],
                    imageUrl = ''https://example.com/demand.png'', status = ''published'',
                    createdAt = ''2022-04-15T05:20:00.000Z'',
                    updatedAt = ''2022-04-15T05:20:00.000Z'' \<rparr>)"
    by (simp add: getUseCaseById_local foundLocal_eq legacyUseCase_def)
  have upd: "updateUseCase (demoEnv True []) ''usecase_1650000000000'' onlyTitle [legacyUseCase]
     = (Inr \<lparr> id' = ''usecase_1650000000000'', title = ''Demand forecasting'',
              description = ''Weekly demand per store'', content = ''# Demand'',
              industry = [], category = [],
              industries = [], categories = [],
              imageUrl = ''https://example.com/demand.png'', status = ''published'',
              createdAt = ''2022-04-15T05:20:00.000Z'',
              updatedAt = ''2023-11-14T22:13:20.000Z'' \<rparr>,
        [\<lparr> id' = ''usecase_1650000000000'', title = ''Demand forecasting'',
           description = ''Weekly demand per store'', content = ''# Demand'',
           industry = [], category = [],
           industries = JArr [], categories = JArr [],
           imageUrl = ''https://example.com/demand.png'', status = ''published'',
           createdAt = ''2022-04-15T05:20:00.000Z'',
           updatedAt = ''2023-11-14T22:13:20.000Z'' \<rparr>])"
    unfolding updateUseCase_local_found [of "demoEnv True []", OF _ idx, simplified]
    by (simp add: updateLocal_eq Let_def onlyTitle_def legacyUseCase_def orElseValue_def
        ensured_array toStored_def)
  have after: "getUseCaseById (demoEnv True []) ''usecase_1650000000000''
       [\<lparr> id' = ''usecase_1650000000000'', title = ''Demand forecasting'',
           description = ''Weekly demand per store'', content = ''# Demand'',
           industry = [], category = [],
           industries = JArr [], categories = JArr [],
           imageUrl = ''https://example.com/demand.png'', status = ''published'',
           createdAt = ''2022-04-15T05:20:00.000Z'',
           updatedAt = ''2023-11-14T22:13:20.000Z'' \<rparr>]
     = Inr (Some \<lparr> id' = ''usecase_1650000000000'', title = ''Demand forecasting'',
                    description = ''Weekly demand per store'', content = ''# Demand'',
                    industry = [], category = [],
                    industries = [], categories = [],
                    imageUrl = ''https://example.com/demand.png'', status = ''published'',
                    createdAt = ''2022-04-15T05:20:00.000Z'',
                    updatedAt = ''2023-11-14T22:13:20.000Z'' \<rparr>)"
    by (simp add: getUseCaseById_local foundLocal_eq ensured_array)
  show ?thesis
    unfolding upd snd_conv using given before after by simp
qed

















text \<open>
  A row written before the list columns existed, read by the two remote paths:
  \<^verbatim>\<open>getUseCases\<close> puts its scalar into the empty list (lines 207 to 213);
  \<^verbatim>\<open>getUseCaseById\<close> has that fallback only in the \<^verbatim>\<open>catch\<close> of lines 303 to 306,
  which is never entered, and returns the scalar beside the empty list.
\<close>

lemma legacy_row_read_remotely:
  "map industries (projr (getUseCases (demoEnv False [legacyRow]) [])) = [[''Retail'']] \<and>
   map industry (projr (getUseCases (demoEnv False [legacyRow]) [])) = [''Retail''] \<and>
   industries (the (projr (getUseCaseById (demoEnv False [legacyRow])
      ''5b7e9a10-2c3d-4e5f-a6b7-c8d9e0f1a2b3'' []))) = [] \<and>
   industry (the (projr (getUseCaseById (demoEnv False [legacyRow])
      ''5b7e9a10-2c3d-4e5f-a6b7-c8d9e0f1a2b3'' []))) = ''Retail''"
proof -
  have "select_eq_id_single (demoEnv False [legacyRow]) ''5b7e9a10-2c3d-4e5f-a6b7-c8d9e0f1a2b3''
      = \<lparr> data = Some legacyRow, error = None \<rparr>"
    by (simp add: legacyRow_def)
  then have "getUseCaseById (demoEnv False [legacyRow]) ''5b7e9a10-2c3d-4e5f-a6b7-c8d9e0f1a2b3'' []
      = Inr (Some (foundRemote (demoEnv False [legacyRow]) legacyRow))"
    by (intro getUseCaseById_remote) simp_all
  moreover have "getUseCases (demoEnv False [legacyRow]) []
      = Inr (map (rowToUseCase (demoEnv False [legacyRow])) [legacyRow])"
    by (intro getUseCases_remote) simp_all
  ultimately show ?thesis
    by (simp add: foundRemote_def rowToUseCase_def Let_def safeEnsureArray_ensured
        ensureArray_ensured legacyRow_def)
qed

text \<open>
  Claim C4. On the local backend \<^verbatim>\<open>getUseCaseById\<close> resolves to \<^verbatim>\<open>null\<close> for an id
  that no record has (lemmas \<open>getUseCaseById_local_absent\<close> and
  \<open>delete_then_getById_local\<close>). On the remote backend it does not: the query ends in
  \<^verbatim>\<open>.single()\<close>, which reports an empty result as an error, and line 290 throws it
  before line 291 can return \<^verbatim>\<open>null\<close>. The same id on the two backends:
\<close>
theorem getUseCaseById_remote_missing_id_rejects:
  "select_eq_id_single (demoEnv False [financeRow]) ''nonexistent-id''
     = \<lparr> data = None,
         error = Some ''JSON object requested, multiple (or no) rows returned'' \<rparr> \<and>
   getUseCaseById (demoEnv False [financeRow]) ''nonexistent-id'' []
     = Inl (Error ''Failed to fetch use case with ID nonexistent-id'') \<and>
   getUseCaseById (demoEnv True []) ''nonexistent-id'' [oldUseCase] = Inr None"
proof -
  have "getUseCaseById (demoEnv False [financeRow]) ''nonexistent-id'' []
     = Inl (Error (''Failed to fetch use case with ID '' @ ''nonexistent-id''))"
    by (rule getUseCaseById_remote_error
          [of _ _ "''JSON object requested, multiple (or no) rows returned''"])
       (simp_all add: financeRow_def)
  moreover have "getUseCaseById (demoEnv True []) ''nonexistent-id'' [oldUseCase] = Inr None"
    by (rule getUseCaseById_local_absent) (simp_all add: oldUseCase_def)
  ultimately show ?thesis by (simp add: financeRow_def)
qed

text \<open>
  Claim C7. On the local backend \<^verbatim>\<open>updateUseCase\<close> rejects an unknown id with the
  message \<^verbatim>\<open>Use case with ID ... not found\<close> and leaves the store as it was (lemma
  \<open>updateUseCase_local_missing\<close>). \<^verbatim>\<open>deleteUseCase\<close> throws the same message inside
  its \<^verbatim>\<open>try\<close>, but its \<^verbatim>\<open>catch\<close> replaces it: what the caller gets for an unknown
  id is the error it gets when the remote store cannot be reached.
\<close>
theorem deleteUseCase_not_found_message_lost:
  "deleteUseCase (demoEnv True []) ''nonexistent-id'' [oldUseCase]
     = (Inl (Error ''Failed to delete use case with ID nonexistent-id''), [oldUseCase]) \<and>
   deleteUseCase offlineEnv ''nonexistent-id'' [oldUseCase]
     = (Inl (Error ''Failed to delete use case with ID nonexistent-id''), [oldUseCase]) \<and>
   updateUseCase (demoEnv True []) ''nonexistent-id'' onlyCategories [oldUseCase]
     = (Inl (Error ''Use case with ID nonexistent-id not found''), [oldUseCase])"
proof -
  have "deleteUseCase (demoEnv True []) ''nonexistent-id'' [oldUseCase]
     = (Inl (Error (''Failed to delete use case with ID '' @ ''nonexistent-id'')), [oldUseCase])"
    by (rule deleteUseCase_local_missing) (simp_all add: oldUseCase_def)
  moreover have "deleteUseCase offlineEnv ''nonexistent-id'' [oldUseCase]
     = (Inl (Error (''Failed to delete use case with ID '' @ ''nonexistent-id'')), [oldUseCase])"
    by (rule deleteUseCase_remote_failed [of _ _ "''TypeError: Failed to fetch''"])
       (simp_all add: offlineEnv_def)
  moreover have "updateUseCase (demoEnv True []) ''nonexistent-id'' onlyCategories [oldUseCase]
     = (Inl (Error (''Use case with ID '' @ ''nonexistent-id'' @ '' not found'')), [oldUseCase])"
    by (rule updateUseCase_local_missing) (simp_all add: oldUseCase_def)
  ultimately show ?thesis by simp
qed


end
